theory Spec2Isabelle
  imports Main "HOL-Library.Multiset"
begin

section \<open>Tornaris companion app: the session engine of app.js\<close>

text \<open>
  The development embeds the game-progression and tournament code of \<^verbatim>\<open>app.js\<close>
  (its current version, the first program of the file). The global \<^verbatim>\<open>state\<close>
  object is a record passed to every operation and returned updated. The catalogs of
  \<^verbatim>\<open>data.js\<close> (\<^verbatim>\<open>CHARACTERS\<close>, \<^verbatim>\<open>MONSTERS\<close>, \<^verbatim>\<open>DAY_EVENTS\<close>,
  \<^verbatim>\<open>NIGHT_EVENTS\<close>) are parameters, bundled in one record. \<^verbatim>\<open>Math.random\<close> is a
  parameter too: the draws of one \<^verbatim>\<open>shuffle\<close> call are a function of the loop index;
  and so is \<^verbatim>\<open>Number\<close> applied to a text.
  JavaScript's \<^verbatim>\<open>null\<close> and \<^verbatim>\<open>undefined\<close> are both \<open>None\<close>.
\<close>

subsection \<open>JavaScript numbers and the string conversions the code calls\<close>

text \<open>
  The numbers of the engine are integers; \<^verbatim>\<open>NaN\<close> is kept apart because
  \<^verbatim>\<open>parseInt\<close> produces it and arithmetic propagates it.
\<close>

datatype jsnum = NaN | Num int

fun js_mul :: "jsnum \<Rightarrow> jsnum \<Rightarrow> jsnum" where
  "js_mul (Num a) (Num b) = Num (a * b)"
| "js_mul _ _ = NaN"

definition isWhiteSpace :: "char \<Rightarrow> bool" where
  "isWhiteSpace c = (c \<in> {CHR '' '', CHR 0x09, CHR 0x0A, CHR 0x0B, CHR 0x0C, CHR 0x0D})"

definition digitValue :: "char \<Rightarrow> nat option" where
  "digitValue c =
     (let n = (of_char c :: nat) in
      if 48 \<le> n \<and> n \<le> 57 then Some (n - 48)
      else if 97 \<le> n \<and> n \<le> 122 then Some (n - 87)
      else if 65 \<le> n \<and> n \<le> 90 then Some (n - 55)
      else None)"

definition isRadixDigit :: "nat \<Rightarrow> char \<Rightarrow> bool" where
  "isRadixDigit R c = (case digitValue c of None \<Rightarrow> False | Some d \<Rightarrow> d < R)"

definition digitsValue :: "nat \<Rightarrow> string \<Rightarrow> nat" where
  "digitsValue R Z =
     foldl (\<lambda>a c. a * R + (case digitValue c of None \<Rightarrow> 0 | Some d \<Rightarrow> d)) 0 Z"

definition stripSign :: "string \<Rightarrow> int \<times> string" where
  "stripSign S =
     (case S of
        [] \<Rightarrow> (1, S)
      | c # r \<Rightarrow> if c = CHR ''-'' then (- 1, r) else if c = CHR ''+'' then (1, r) else (1, S))"

definition stripHexPrefix :: "string \<Rightarrow> nat \<times> string" where
  "stripHexPrefix S =
     (case S of
        c0 # c1 # r \<Rightarrow>
          if c0 = CHR ''0'' \<and> (c1 = CHR ''x'' \<or> c1 = CHR ''X'') then (16, r) else (10, S)
      | _ \<Rightarrow> (10, S))"

text \<open>
  \<^verbatim>\<open>parseInt(string)\<close> with no radix argument, as ECMAScript defines it: leading white
  space is dropped, then a sign, then a \<^verbatim>\<open>0x\<close> prefix switches to radix 16; the longest
  prefix of digits of the radix is the value, and no digit at all gives \<^verbatim>\<open>NaN\<close>.
  Strings are ASCII here, so only the ASCII white space characters are dropped.
\<close>

definition parseInt :: "string \<Rightarrow> jsnum" where
  "parseInt s =
     (let S = dropWhile isWhiteSpace s;
          (sign, S1) = stripSign S;
          (R, S2) = stripHexPrefix S1;
          Z = takeWhile (isRadixDigit R) S2
      in if Z = [] then NaN else Num (sign * int (digitsValue R Z)))"

definition endsWith :: "string \<Rightarrow> string \<Rightarrow> bool" where
  "endsWith s suffix_s = (length suffix_s \<le> length s \<and> drop (length s - length suffix_s) s = suffix_s)"

subsection \<open>Catalogs\<close>

text \<open>The \<^verbatim>\<open>hp\<close> of a monster is \<^verbatim>\<open>null\<close>, a number, or a string such as \<^verbatim>\<open>'3x'\<close>.\<close>

datatype hp_spec = HpNull | HpNumber int | HpString string

record monster =
  m_id :: int
  tier :: string
  hp :: hp_spec

record character =
  c_id :: string
  c_maxMana :: int

record event =
  ev_id :: int
  ev_name :: string
  count :: nat

record catalogs =
  CHARACTERS :: "character list"
  MONSTERS :: "monster list"
  DAY_EVENTS :: "event list"
  NIGHT_EVENTS :: "event list"

definition getChar :: "catalogs \<Rightarrow> string \<Rightarrow> character option" where
  "getChar cat i = find (\<lambda>c. c_id c = i) (CHARACTERS cat)"

definition getMonster :: "catalogs \<Rightarrow> int \<Rightarrow> monster option" where
  "getMonster cat i = find (\<lambda>m. m_id m = i) (MONSTERS cat)"

subsection \<open>Hit points\<close>

text \<open>
  \<^verbatim>\<open>computeHP\<close> returns \<^verbatim>\<open>null\<close> (\<open>None\<close>) for a monster whose \<^verbatim>\<open>hp\<close> is \<^verbatim>\<open>null\<close>.
  For a text that does not end in \<^verbatim>\<open>x\<close> it calls \<^verbatim>\<open>Number\<close>, the conversion of the
  JavaScript runtime; that conversion is not defined here: the value it gives to each text
  is the parameter \<open>toNumber\<close>, so what is proved holds whatever it returns. The numbers
  of the model are the integers and \<^verbatim>\<open>NaN\<close>: a catalog with a text that denotes a
  fraction or an infinity is outside it. For a number \<^verbatim>\<open>Number\<close> returns its argument.
\<close>

definition computeHP :: "(string \<Rightarrow> jsnum) \<Rightarrow> monster \<Rightarrow> nat \<Rightarrow> bool \<Rightarrow> jsnum option" where
  "computeHP toNumber monster playerCount isLegendary =
     (case hp monster of
        HpNull \<Rightarrow> None
      | HpString s \<Rightarrow>
          (let base = (if endsWith s ''x'' then js_mul (parseInt s) (Num (int playerCount))
                       else toNumber s)
           in Some (if isLegendary then js_mul base (Num 2) else base))
      | HpNumber n \<Rightarrow>
          (let base = Num n
           in Some (if isLegendary then js_mul base (Num 2) else base)))"

datatype hp_display = Especial | Shown jsnum

definition computeHPDisplay :: "(string \<Rightarrow> jsnum) \<Rightarrow> monster \<Rightarrow> nat \<Rightarrow> bool \<Rightarrow> hp_display" where
  "computeHPDisplay toNumber monster playerCount isLegendary =
     (case computeHP toNumber monster playerCount isLegendary of
        None \<Rightarrow> Especial
      | Some v \<Rightarrow> Shown v)"

text \<open>
  The text of a multiplier: the decimal digits of \<open>k\<close> followed by \<^verbatim>\<open>x\<close>. It is the
  only definition of this section that is not code of the program; it names the hit-point
  texts of the multiplier form.
\<close>

fun decimal :: "nat \<Rightarrow> string" where
  "decimal n =
     (if n < 10 then [char_of (48 + n)]
      else decimal (n div 10) @ [char_of (48 + n mod 10)])"

declare decimal.simps [simp del]

definition multiplier :: "nat \<Rightarrow> hp_spec" where
  "multiplier k = HpString (decimal k @ ''x'')"

subsection \<open>Shuffle\<close>

text \<open>
  \<^verbatim>\<open>shuffle\<close> copies the array and runs the loop \<^verbatim>\<open>for (i = a.length - 1; i > 0; i--)\<close>,
  swapping \<^verbatim>\<open>a[i]\<close> with \<^verbatim>\<open>a[j]\<close> for \<^verbatim>\<open>j = Math.floor(Math.random() * (i + 1))\<close>.
  \<^verbatim>\<open>Math.random()\<close> lies in \<open>[0, 1)\<close>, so \<open>j\<close> is one of \<open>0, \<dots>, i\<close>: the draw at
  index \<open>i\<close> is \<open>rnd i mod (i + 1)\<close>, which takes each of these values and no other.
\<close>

fun shuffle_loop :: "(nat \<Rightarrow> nat) \<Rightarrow> nat \<Rightarrow> 'a list \<Rightarrow> 'a list" where
  "shuffle_loop rnd 0 a = a"
| "shuffle_loop rnd (Suc i) a =
     (let j = rnd (Suc i) mod (Suc i + 1)
      in shuffle_loop rnd i (a[Suc i := a ! j, j := a ! Suc i]))"

definition shuffle :: "(nat \<Rightarrow> nat) \<Rightarrow> 'a list \<Rightarrow> 'a list" where
  "shuffle rnd arr = shuffle_loop rnd (length arr - 1) arr"

subsection \<open>Deck builders\<close>

text \<open>
  \<^verbatim>\<open>buildMonsterDeck\<close> shuffles once per tier: \<open>rnds k\<close> is the draw function of the
  \<open>k\<close>-th call.
\<close>

fun buildMonsterDeck_loop ::
  "catalogs \<Rightarrow> (nat \<Rightarrow> nat \<Rightarrow> nat) \<Rightarrow> nat \<Rightarrow> string list \<Rightarrow> int list \<Rightarrow> int list" where
  "buildMonsterDeck_loop cat rnds k [] deck = deck"
| "buildMonsterDeck_loop cat rnds k (t # ts) deck =
     (let ids = map m_id (filter (\<lambda>m. tier m = t) (MONSTERS cat))
      in buildMonsterDeck_loop cat rnds (Suc k) ts (deck @ take 3 (shuffle (rnds k) ids)))"

definition tiers :: "string list" where
  "tiers = [''duende'', ''ogro'', ''golem'', ''dragon'']"

definition buildMonsterDeck :: "catalogs \<Rightarrow> (nat \<Rightarrow> nat \<Rightarrow> nat) \<Rightarrow> int list" where
  "buildMonsterDeck cat rnds = buildMonsterDeck_loop cat rnds 0 tiers []"

datatype time_kind = Day | Night

record deck_entry =
  e_type :: time_kind
  eventId :: int

text \<open>The two nested loops that push \<^verbatim>\<open>ev.count\<close> entries for every event of a list.\<close>

fun expand :: "time_kind \<Rightarrow> event list \<Rightarrow> deck_entry list" where
  "expand k [] = []"
| "expand k (ev # evs) = replicate (count ev) \<lparr>e_type = k, eventId = ev_id ev\<rparr> @ expand k evs"

text \<open>\<^verbatim>\<open>Array.prototype.findIndex\<close>; the result \<^verbatim>\<open>-1\<close> is \<open>None\<close>.\<close>

fun findIndex :: "('a \<Rightarrow> bool) \<Rightarrow> 'a list \<Rightarrow> nat option" where
  "findIndex P [] = None"
| "findIndex P (x # xs) = (if P x then Some 0 else map_option Suc (findIndex P xs))"

definition buildCombinedEventDeck :: "catalogs \<Rightarrow> (nat \<Rightarrow> nat) \<Rightarrow> deck_entry list" where
  "buildCombinedEventDeck cat rnd =
     (let deck = shuffle rnd (expand Day (DAY_EVENTS cat) @ expand Night (NIGHT_EVENTS cat))
      in case findIndex (\<lambda>c. e_type c = Day \<and> eventId c = 1) deck of
           Some normalIdx \<Rightarrow>
             if normalIdx > 0
             then (deck ! normalIdx) # (take normalIdx deck @ drop (Suc normalIdx) deck)
             else deck
         | None \<Rightarrow> \<lparr>e_type = Day, eventId = 1\<rparr> # deck)"

subsection \<open>The session state\<close>

record player =
  pid :: nat
  name :: string
  characterId :: string
  gold :: int
  mana :: int
  maxMana :: int
  equipment :: "int list"

text \<open>
  A notification is the text \<^verbatim>\<open>`Tier ${tier} completado! +1 mana maximo a todos`\<close>
  (written here without its accents and inverted exclamation mark); the tier is what
  varies.
\<close>

datatype notification = TierCompleted string

record game =
  eventDeck :: "deck_entry list"
  eventIndex :: nat
  currentDay :: nat
  timeOfDay :: time_kind
  monsterDeck :: "int list"
  monsterDeckIndex :: nat
  monsterDefeated :: bool
  pendingNotifications :: "notification list"

record duel =
  d_player1Id :: "nat option"
  d_player2Id :: "nat option"
  score1 :: nat
  score2 :: nat
  d_winnerId :: "nat option"
  matchId :: "string option"

record monsterCombat =
  monsterId :: "int option"
  maxHP :: int
  currentHP :: int
  combatantIds :: "nat list"
  combatantScores :: "nat \<rightharpoonup> int"
  isLegendary :: bool

record seed =
  playerId :: nat
  seedRank :: "nat option"

record feed =
  f_matchId :: string
  slot :: nat

record match =
  mid :: string
  player1Id :: "nat option"
  player2Id :: "nat option"
  advantagePlayerId :: "nat option"
  winnerId :: "nat option"
  feedsFrom :: "feed option \<times> feed option"

record round =
  r_name :: string
  matches :: "match list"

datatype tphase = PhasePre | PhaseBracket | PhaseChampion

record tournament =
  t_phase :: tphase
  seeds :: "seed list"
  rounds :: "round list"
  championId :: "nat option"

record options =
  digitalMonsters :: bool
  digitalEvents :: bool
  fullTracking :: bool

datatype screen = Setup | Game | Duel | MonsterCombat | Tournament | Champion

record state =
  phase :: screen
  previousPhase :: screen
  options :: options
  players :: "player list"
  game :: game
  duel :: duel
  monsterCombat :: monsterCombat
  tournament :: tournament

text \<open>
  \<^verbatim>\<open>navigateTo\<close> sets the phase; \<^verbatim>\<open>saveState\<close> and \<^verbatim>\<open>renderAll\<close> write the state
  to storage and to the page and leave it as it is.
\<close>

definition navigateTo :: "screen \<Rightarrow> state \<Rightarrow> state" where
  "navigateTo ph s = s\<lparr>phase := ph\<rparr>"

text \<open>
  A modal dialog left on the page by an operation. Its buttons run later, as events of
  their own: \<^verbatim>\<open>OK\<close> of the two combat dialogs is \<open>navigateTo Game\<close>.
\<close>

datatype modal =
  MonstruoDerrotado | CombateFallido | Empate | HabilidadDeNyra "nat option" "nat option"

subsection \<open>Starting a game\<close>

definition startGame :: "catalogs \<Rightarrow> (nat \<Rightarrow> nat) \<Rightarrow> (nat \<Rightarrow> nat \<Rightarrow> nat) \<Rightarrow> state \<Rightarrow> state" where
  "startGame cat rndE rndsM s =
     (let players' =
            map (\<lambda>(i, p).
                   let char = getChar cat (characterId p);
                       maxMana' = (case char of Some c \<Rightarrow> c_maxMana c | None \<Rightarrow> 4)
                   in p\<lparr>pid := i, gold := 0, mana := maxMana', maxMana := maxMana', equipment := []\<rparr>)
                (enumerate 0 (players s));
          eventDeck' = buildCombinedEventDeck cat rndE;
          firstEvent = (case eventDeck' of [] \<Rightarrow> None | e # _ \<Rightarrow> Some e);
          isDay = (case firstEvent of Some e \<Rightarrow> e_type e = Day | None \<Rightarrow> False)
      in navigateTo Game
           (s\<lparr>players := players',
              game := \<lparr>eventDeck = eventDeck',
                        eventIndex = 0,
                        currentDay = (if isDay then 1 else 0),
                        timeOfDay = (case firstEvent of Some e \<Rightarrow> e_type e | None \<Rightarrow> Day),
                        monsterDeck = buildMonsterDeck cat rndsM,
                        monsterDeckIndex = 0,
                        monsterDefeated = False,
                        pendingNotifications = []\<rparr>\<rparr>))"

subsection \<open>Time advance\<close>

text \<open>\<^verbatim>\<open>currentEvent\<close> returns the catalog event with the type of the deck entry.\<close>

definition currentEvent :: "catalogs \<Rightarrow> state \<Rightarrow> (event \<times> time_kind) option" where
  "currentEvent cat s =
     (let g = game s
      in if eventIndex g < length (eventDeck g)
         then (let entry = eventDeck g ! eventIndex g;
                   events = (if e_type entry = Day then DAY_EVENTS cat else NIGHT_EVENTS cat)
               in case find (\<lambda>e. ev_id e = eventId entry) events of
                    Some ev \<Rightarrow> Some (ev, e_type entry)
                  | None \<Rightarrow> None)
         else None)"

definition tournamentSetup :: "state \<Rightarrow> tournament" where
  "tournamentSetup s =
     \<lparr>t_phase = PhasePre,
      seeds = map (\<lambda>p. \<lparr>playerId = pid p, seedRank = None\<rparr>) (players s),
      rounds = [],
      championId = None\<rparr>"

text \<open>The first statement of \<^verbatim>\<open>advanceTime\<close>: a closed dungeon resolves the day's monster.\<close>

definition autoSkip :: "catalogs \<Rightarrow> state \<Rightarrow> state" where
  "autoSkip cat s =
     (let g = game s
      in case currentEvent cat s of
           Some (ev, k) \<Rightarrow>
             if k = Day \<and> ev_name ev = ''Mazmorra Cerrada'' \<and> \<not> monsterDefeated g
             then s\<lparr>game := g\<lparr>monsterDefeated := True, monsterDeckIndex := monsterDeckIndex g + 1\<rparr>\<rparr>
             else s
         | None \<Rightarrow> s)"

definition advanceTime :: "catalogs \<Rightarrow> state \<Rightarrow> state" where
  "advanceTime cat s0 =
     (let s = autoSkip cat s0;
          g = game s
      in if currentDay g \<ge> 12 \<and> timeOfDay g = Day
         then navigateTo Tournament (s\<lparr>tournament := tournamentSetup s\<rparr>)
         else (let g1 = g\<lparr>eventIndex := eventIndex g + 1\<rparr>;
                   s1 = s\<lparr>game := g1\<rparr>
               in if eventIndex g1 \<ge> length (eventDeck g1)
                  then navigateTo Tournament (s1\<lparr>tournament := tournamentSetup s1\<rparr>)
                  else (let nextEntry = eventDeck g1 ! eventIndex g1;
                            g2 = g1\<lparr>timeOfDay := e_type nextEntry\<rparr>;
                            g3 = (if e_type nextEntry = Day
                                  then g2\<lparr>currentDay := currentDay g2 + 1, monsterDefeated := False\<rparr>
                                  else g2)
                        in s1\<lparr>game := g3\<rparr>)))"

subsection \<open>Monster combat\<close>

definition openMonsterCombat :: "catalogs \<Rightarrow> (string \<Rightarrow> jsnum) \<Rightarrow> state \<Rightarrow> state" where
  "openMonsterCombat cat toNumber s =
     (let g = game s
      in if monsterDeckIndex g < length (monsterDeck g)
         then (let monsterId' = monsterDeck g ! monsterDeckIndex g
               in case getMonster cat monsterId' of
                    None \<Rightarrow> s
                  | Some monster \<Rightarrow>
                      (let isLegendary' =
                             (case currentEvent cat s of
                                Some (ev, k) \<Rightarrow> ev_name ev = ''Monstruo Legendario''
                              | None \<Rightarrow> False);
                           maxHP' =
                             (case computeHP toNumber monster (length (players s)) isLegendary' of
                                Some (Num n) \<Rightarrow> n
                              | _ \<Rightarrow> 0)
                       in navigateTo MonsterCombat
                            (s\<lparr>monsterCombat :=
                                 \<lparr>monsterId = Some monsterId', maxHP = maxHP', currentHP = maxHP',
                                  combatantIds = [], combatantScores = Map.empty,
                                  isLegendary = isLegendary'\<rparr>\<rparr>)))
         else s)"

definition recalcMonsterHP :: "state \<Rightarrow> state" where
  "recalcMonsterHP s =
     (let mc = monsterCombat s;
          totalDmg =
            sum_list (map (\<lambda>p. case combatantScores mc p of Some v \<Rightarrow> v | None \<Rightarrow> 0)
                          (combatantIds mc))
      in s\<lparr>monsterCombat := mc\<lparr>currentHP := maxHP mc - totalDmg\<rparr>\<rparr>)"

text \<open>The \<^verbatim>\<open>change\<close> listener of a combatant's checkbox in \<^verbatim>\<open>renderMonsterCombat\<close>.\<close>

definition setCombatant :: "nat \<Rightarrow> bool \<Rightarrow> state \<Rightarrow> state" where
  "setCombatant p checked s =
     (let mc = monsterCombat s;
          mc' =
            (if checked
             then mc\<lparr>combatantIds :=
                       (if p \<in> set (combatantIds mc) then combatantIds mc
                        else combatantIds mc @ [p]),
                     combatantScores :=
                       (case combatantScores mc p of
                          Some v \<Rightarrow> if v = 0 then (combatantScores mc)(p \<mapsto> 0)
                                    else combatantScores mc
                        | None \<Rightarrow> (combatantScores mc)(p \<mapsto> 0))\<rparr>
             else mc\<lparr>combatantIds := filter (\<lambda>i. i \<noteq> p) (combatantIds mc),
                     combatantScores := (combatantScores mc)(p := None)\<rparr>)
      in recalcMonsterHP (s\<lparr>monsterCombat := mc'\<rparr>))"

definition adjustCombatantScore :: "nat \<Rightarrow> int \<Rightarrow> state \<Rightarrow> state" where
  "adjustCombatantScore p delta s =
     (let mc = monsterCombat s;
          old = (case combatantScores mc p of Some v \<Rightarrow> v | None \<Rightarrow> 0)
      in recalcMonsterHP
           (s\<lparr>monsterCombat := mc\<lparr>combatantScores := (combatantScores mc)(p \<mapsto> max 0 (old + delta))\<rparr>\<rparr>))"

text \<open>\<^verbatim>\<open>Math.max(...xs)\<close> of indices; \<^verbatim>\<open>-Infinity\<close>, its value on no argument, is \<open>None\<close>.\<close>

fun Math_max :: "nat list \<Rightarrow> nat option" where
  "Math_max [] = None"
| "Math_max (x # xs) = (case Math_max xs of None \<Rightarrow> Some x | Some m \<Rightarrow> Some (max x m))"

definition checkTierCompletion :: "catalogs \<Rightarrow> int list \<Rightarrow> nat \<Rightarrow> string \<Rightarrow> state \<Rightarrow> state" where
  "checkTierCompletion cat deck currentIdx t s =
     (let tierIndices =
            filter (\<lambda>i. case getMonster cat (deck ! i) of Some m \<Rightarrow> tier m = t | None \<Rightarrow> False)
                   [0..<length deck]
      in case Math_max tierIndices of
           None \<Rightarrow> s
         | Some maxTierIdx \<Rightarrow>
             if currentIdx > maxTierIdx \<and> maxTierIdx \<ge> 0
             then s\<lparr>game := (game s)\<lparr>pendingNotifications :=
                                       pendingNotifications (game s) @ [TierCompleted t]\<rparr>,
                    players := map (\<lambda>p. p\<lparr>maxMana := maxMana p + 1,
                                           mana := min (mana p + 1) (maxMana p + 1)\<rparr>)
                                   (players s)\<rparr>
             else s)"

text \<open>
  \<^verbatim>\<open>endMonsterCombat\<close> leaves a dialog whose \<^verbatim>\<open>OK\<close> goes back to the game screen; the
  phase stays \<^verbatim>\<open>monsterCombat\<close> until then. \<^verbatim>\<open>if (tier)\<close> is false for \<^verbatim>\<open>null\<close> and
  for the empty string.
\<close>

definition endMonsterCombat :: "catalogs \<Rightarrow> state \<Rightarrow> state \<times> modal" where
  "endMonsterCombat cat s =
     (let mc = monsterCombat s;
          g = game s;
          defeated = (currentHP mc \<le> 0)
      in if defeated
         then (let monster = (case monsterId mc of Some i \<Rightarrow> getMonster cat i | None \<Rightarrow> None);
                   tier' = (case monster of Some m \<Rightarrow> Some (tier m) | None \<Rightarrow> None);
                   g1 = g\<lparr>monsterDefeated := True, monsterDeckIndex := monsterDeckIndex g + 1\<rparr>;
                   s1 = s\<lparr>game := g1\<rparr>
               in ((case tier' of
                      Some t \<Rightarrow>
                        if t \<noteq> [] then checkTierCompletion cat (monsterDeck g1) (monsterDeckIndex g1) t s1
                        else s1
                    | None \<Rightarrow> s1),
                   MonstruoDerrotado))
         else (s, CombateFallido))"

definition skipMonster :: "state \<Rightarrow> state" where
  "skipMonster s = s\<lparr>game := (game s)\<lparr>monsterDefeated := True\<rparr>\<rparr>"

subsection \<open>Tournament\<close>

text \<open>Reading \<^verbatim>\<open>s[i]\<close>: \<^verbatim>\<open>undefined\<close> past the end of the array.\<close>

definition nth_opt :: "'a list \<Rightarrow> nat \<Rightarrow> 'a option" where
  "nth_opt xs i = (if i < length xs then Some (xs ! i) else None)"

definition buildBracket3p :: "nat list \<Rightarrow> round list" where
  "buildBracket3p s =
     [\<lparr>r_name = ''Semifinal'', matches =
         [\<lparr>mid = ''sf1'', player1Id = nth_opt s 1, player2Id = nth_opt s 2,
           advantagePlayerId = nth_opt s 1, winnerId = None, feedsFrom = (None, None)\<rparr>]\<rparr>,
      \<lparr>r_name = ''Final'', matches =
         [\<lparr>mid = ''final'', player1Id = nth_opt s 0, player2Id = None,
           advantagePlayerId = nth_opt s 0, winnerId = None,
           feedsFrom = (None, Some \<lparr>f_matchId = ''sf1'', slot = 2\<rparr>)\<rparr>]\<rparr>]"

definition buildBracket4p :: "nat list \<Rightarrow> round list" where
  "buildBracket4p s =
     [\<lparr>r_name = ''Semifinal'', matches =
         [\<lparr>mid = ''sf1'', player1Id = nth_opt s 0, player2Id = nth_opt s 3,
           advantagePlayerId = nth_opt s 0, winnerId = None, feedsFrom = (None, None)\<rparr>,
          \<lparr>mid = ''sf2'', player1Id = nth_opt s 1, player2Id = nth_opt s 2,
           advantagePlayerId = nth_opt s 1, winnerId = None, feedsFrom = (None, None)\<rparr>]\<rparr>,
      \<lparr>r_name = ''Final'', matches =
         [\<lparr>mid = ''final'', player1Id = None, player2Id = None,
           advantagePlayerId = None, winnerId = None,
           feedsFrom = (Some \<lparr>f_matchId = ''sf1'', slot = 1\<rparr>,
                        Some \<lparr>f_matchId = ''sf2'', slot = 1\<rparr>)\<rparr>]\<rparr>]"

definition buildBracket5p :: "nat list \<Rightarrow> round list" where
  "buildBracket5p s =
     [\<lparr>r_name = ''Cuartos'', matches =
         [\<lparr>mid = ''qf1'', player1Id = nth_opt s 3, player2Id = nth_opt s 4,
           advantagePlayerId = nth_opt s 3, winnerId = None, feedsFrom = (None, None)\<rparr>]\<rparr>,
      \<lparr>r_name = ''Semifinal'', matches =
         [\<lparr>mid = ''sf1'', player1Id = nth_opt s 1, player2Id = None,
           advantagePlayerId = nth_opt s 1, winnerId = None,
           feedsFrom = (None, Some \<lparr>f_matchId = ''qf1'', slot = 1\<rparr>)\<rparr>,
          \<lparr>mid = ''sf2'', player1Id = nth_opt s 2, player2Id = None,
           advantagePlayerId = nth_opt s 2, winnerId = None,
           feedsFrom = (None, Some \<lparr>f_matchId = ''qf1'', slot = 1\<rparr>)\<rparr>]\<rparr>,
      \<lparr>r_name = ''Final'', matches =
         [\<lparr>mid = ''final'', player1Id = nth_opt s 0, player2Id = None,
           advantagePlayerId = nth_opt s 0, winnerId = None,
           feedsFrom = (None, Some \<lparr>f_matchId = ''sf1'', slot = 1\<rparr>)\<rparr>]\<rparr>]"

definition buildBracket6p :: "nat list \<Rightarrow> round list" where
  "buildBracket6p s =
     [\<lparr>r_name = ''Cuartos'', matches =
         [\<lparr>mid = ''qf1'', player1Id = nth_opt s 0, player2Id = nth_opt s 1,
           advantagePlayerId = nth_opt s 0, winnerId = None, feedsFrom = (None, None)\<rparr>,
          \<lparr>mid = ''qf2'', player1Id = nth_opt s 2, player2Id = nth_opt s 3,
           advantagePlayerId = nth_opt s 2, winnerId = None, feedsFrom = (None, None)\<rparr>,
          \<lparr>mid = ''qf3'', player1Id = nth_opt s 4, player2Id = nth_opt s 5,
           advantagePlayerId = nth_opt s 4, winnerId = None, feedsFrom = (None, None)\<rparr>]\<rparr>,
      \<lparr>r_name = ''Semifinal'', matches =
         [\<lparr>mid = ''sf1'', player1Id = None, player2Id = None,
           advantagePlayerId = None, winnerId = None,
           feedsFrom = (Some \<lparr>f_matchId = ''qf2'', slot = 1\<rparr>,
                        Some \<lparr>f_matchId = ''qf3'', slot = 1\<rparr>)\<rparr>]\<rparr>,
      \<lparr>r_name = ''Final'', matches =
         [\<lparr>mid = ''final'', player1Id = None, player2Id = None,
           advantagePlayerId = None, winnerId = None,
           feedsFrom = (Some \<lparr>f_matchId = ''qf1'', slot = 1\<rparr>,
                        Some \<lparr>f_matchId = ''sf1'', slot = 1\<rparr>)\<rparr>]\<rparr>]"

text \<open>
  \<^verbatim>\<open>order.forEach((origIdx, rank) => { t.seeds[origIdx].seedRank = rank + 1; })\<close>:
  \<open>rank\<close> counts the entries of \<open>order\<close> from 0.
\<close>

fun assignRanks :: "nat \<Rightarrow> nat list \<Rightarrow> seed list \<Rightarrow> seed list" where
  "assignRanks rank [] sds = sds"
| "assignRanks rank (origIdx # order) sds =
     assignRanks (Suc rank) order (sds[origIdx := (sds ! origIdx)\<lparr>seedRank := Some (rank + 1)\<rparr>])"

text \<open>
  \<^verbatim>\<open>startTournament\<close>. The comparator \<^verbatim>\<open>a.seedRank - b.seedRank\<close> reads a \<^verbatim>\<open>null\<close>
  rank as 0; \<^verbatim>\<open>Array.prototype.sort\<close> is stable, as \<open>sort_key\<close> is. The
  \<^verbatim>\<open>switch\<close> has no failing branch: \<^verbatim>\<open>default\<close> builds the bracket of four.
\<close>

definition startTournament :: "(nat \<Rightarrow> nat) \<Rightarrow> state \<Rightarrow> state" where
  "startTournament rnd s =
     (let t = tournament s;
          order = shuffle rnd [0..<length (seeds t)];
          seeds1 = assignRanks 0 order (seeds t);
          sorted = sort_key (\<lambda>a. case seedRank a of None \<Rightarrow> 0 | Some r \<Rightarrow> r) seeds1;
          sds = map playerId sorted;
          n = length (players s);
          rounds1 =
            (if n = 3 then buildBracket3p sds
             else if n = 4 then buildBracket4p sds
             else if n = 5 then buildBracket5p sds
             else if n = 6 then buildBracket6p sds
             else buildBracket4p (take 4 sds))
      in s\<lparr>tournament := t\<lparr>seeds := seeds1, rounds := rounds1, t_phase := PhaseBracket\<rparr>\<rparr>)"

text \<open>\<^verbatim>\<open>findMatch\<close> returns the first match with the id: here its round and position.\<close>

fun findMatch :: "string \<Rightarrow> round list \<Rightarrow> (nat \<times> nat) option" where
  "findMatch matchId' [] = None"
| "findMatch matchId' (r # rs) =
     (case findIndex (\<lambda>m. mid m = matchId') (matches r) of
        Some j \<Rightarrow> Some (0, j)
      | None \<Rightarrow> map_option (\<lambda>(i, j). (Suc i, j)) (findMatch matchId' rs))"

definition updateMatch :: "nat \<times> nat \<Rightarrow> (match \<Rightarrow> match) \<Rightarrow> round list \<Rightarrow> round list" where
  "updateMatch pos f rs =
     (case pos of
        (i, j) \<Rightarrow> rs[i := (rs ! i)\<lparr>matches := (matches (rs ! i))[j := f (matches (rs ! i) ! j)]\<rparr>])"

text \<open>The body of the loops of \<^verbatim>\<open>propagateWinner\<close> for one match: slot 0, then slot 1.\<close>

definition propagateMatch :: "string \<Rightarrow> nat option \<Rightarrow> match \<Rightarrow> match" where
  "propagateMatch matchId' winnerId' m =
     (let m1 = (case fst (feedsFrom m) of
                  Some f \<Rightarrow> if f_matchId f = matchId' then m\<lparr>player1Id := winnerId'\<rparr> else m
                | None \<Rightarrow> m)
      in case snd (feedsFrom m1) of
           Some f \<Rightarrow> if f_matchId f = matchId' then m1\<lparr>player2Id := winnerId'\<rparr> else m1
         | None \<Rightarrow> m1)"

definition propagateWinner :: "string \<Rightarrow> nat option \<Rightarrow> round list \<Rightarrow> round list" where
  "propagateWinner matchId' winnerId' rs =
     map (\<lambda>r. r\<lparr>matches := map (propagateMatch matchId' winnerId') (matches r)\<rparr>) rs"

definition recordMatchResult :: "string \<Rightarrow> nat option \<Rightarrow> state \<Rightarrow> state" where
  "recordMatchResult matchId' winnerId' s =
     (let t = tournament s;
          rounds1 = (case findMatch matchId' (rounds t) of
                       Some pos \<Rightarrow> updateMatch pos (\<lambda>m. m\<lparr>winnerId := winnerId'\<rparr>) (rounds t)
                     | None \<Rightarrow> rounds t)
      in if matchId' = ''final''
         then navigateTo Tournament
                (s\<lparr>tournament := t\<lparr>rounds := rounds1, championId := winnerId',
                                    t_phase := PhaseChampion\<rparr>\<rparr>)
         else navigateTo Tournament
                (s\<lparr>tournament := t\<lparr>rounds := propagateWinner matchId' winnerId' rounds1\<rparr>\<rparr>))"

subsection \<open>Duel\<close>

definition handlePostDuel :: "nat option \<Rightarrow> state \<Rightarrow> state" where
  "handlePostDuel winnerId' s =
     (case matchId (duel s) of
        Some m \<Rightarrow> if m \<noteq> [] then recordMatchResult m winnerId' s else s
      | None \<Rightarrow> s)"

text \<open>
  \<^verbatim>\<open>declareWinner\<close> reads the two scores from the page (\<^verbatim>\<open>getDuelScore\<close>: the digits
  of the text, 0 when there is none); they are its arguments here. It returns the dialog
  it opens, if any. \<^verbatim>\<open>state.players.find(p => p.id === id)\<close> is the first player with
  the id.
\<close>

definition declareWinner :: "nat \<Rightarrow> nat \<Rightarrow> state \<Rightarrow> state \<times> modal option" where
  "declareWinner s1 s2 s =
     (if s1 = s2 then (s, Some Empate)
      else (let winNum = (if s1 > s2 then 1 else 2 :: nat);
                winnerId' = (if winNum = 1 then d_player1Id (duel s) else d_player2Id (duel s));
                loserId = (if winNum = 1 then d_player2Id (duel s) else d_player1Id (duel s));
                s' = s\<lparr>duel := (duel s)\<lparr>d_winnerId := winnerId'\<rparr>\<rparr>;
                winner = find (\<lambda>p. Some (pid p) = winnerId') (players s');
                loser = find (\<lambda>p. Some (pid p) = loserId) (players s')
            in if fullTracking (options s') \<and>
                  (case winner of Some w \<Rightarrow> characterId w = ''nyra'' | None \<Rightarrow> False) \<and>
                  loser \<noteq> None
               then (s', Some (HabilidadDeNyra winnerId' loserId))
               else (handlePostDuel winnerId' s', None)))"

text \<open>The two buttons of Nyra's dialog.\<close>

fun updateFirst :: "('a \<Rightarrow> bool) \<Rightarrow> ('a \<Rightarrow> 'a) \<Rightarrow> 'a list \<Rightarrow> 'a list" where
  "updateFirst P f [] = []"
| "updateFirst P f (x # xs) = (if P x then f x # xs else x # updateFirst P f xs)"

definition nyraSi :: "nat option \<Rightarrow> nat option \<Rightarrow> state \<Rightarrow> state" where
  "nyraSi winnerId' loserId s =
     (case find (\<lambda>p. Some (pid p) = loserId) (players s) of
        None \<Rightarrow> handlePostDuel winnerId' s
      | Some loser \<Rightarrow>
          (let stolen = min 7 (gold loser);
               ps1 = updateFirst (\<lambda>p. Some (pid p) = loserId) (\<lambda>p. p\<lparr>gold := gold p - stolen\<rparr>)
                       (players s);
               ps2 = updateFirst (\<lambda>p. Some (pid p) = winnerId') (\<lambda>p. p\<lparr>gold := gold p + stolen\<rparr>)
                       ps1
           in handlePostDuel winnerId' (s\<lparr>players := ps2\<rparr>)))"

definition nyraNo :: "nat option \<Rightarrow> state \<Rightarrow> state" where
  "nyraNo winnerId' s = handlePostDuel winnerId' s"

subsection \<open>Notions the statements about the decks use\<close>

text \<open>
  The card \<^verbatim>\<open>{ type: 'day', eventId: 1 }\<close> that \<^verbatim>\<open>buildCombinedEventDeck\<close> looks
  for and pushes; the ids of a tier in the catalog, in catalog order (the array
  \<^verbatim>\<open>ids\<close> of \<^verbatim>\<open>buildMonsterDeck\<close>); and the tier of the monster an id refers to.
\<close>

definition normalDay :: deck_entry where
  "normalDay = \<lparr>e_type = Day, eventId = 1\<rparr>"

definition tierIds :: "catalogs \<Rightarrow> string \<Rightarrow> int list" where
  "tierIds cat t = map m_id (filter (\<lambda>m. tier m = t) (MONSTERS cat))"

definition tierOf :: "catalogs \<Rightarrow> int \<Rightarrow> string option" where
  "tierOf cat i = map_option tier (getMonster cat i)"

subsection \<open>A small catalog for the examples\<close>

definition sampleCatalog :: catalogs where
  "sampleCatalog =
     \<lparr>CHARACTERS =
        [\<lparr>c_id = ''nyra'', c_maxMana = 4\<rparr>, \<lparr>c_id = ''celeste'', c_maxMana = 5\<rparr>,
         \<lparr>c_id = ''brom'', c_maxMana = 4\<rparr>],
      MONSTERS =
        [\<lparr>m_id = 1, tier = ''duende'', hp = HpNumber 4\<rparr>,
         \<lparr>m_id = 2, tier = ''duende'', hp = HpNumber 5\<rparr>,
         \<lparr>m_id = 3, tier = ''duende'', hp = HpString ''2x''\<rparr>,
         \<lparr>m_id = 4, tier = ''duende'', hp = HpNumber 6\<rparr>,
         \<lparr>m_id = 5, tier = ''ogro'', hp = HpNumber 10\<rparr>,
         \<lparr>m_id = 6, tier = ''ogro'', hp = HpString ''3x''\<rparr>,
         \<lparr>m_id = 7, tier = ''ogro'', hp = HpNumber 12\<rparr>,
         \<lparr>m_id = 8, tier = ''golem'', hp = HpNumber 15\<rparr>,
         \<lparr>m_id = 9, tier = ''golem'', hp = HpString ''4x''\<rparr>,
         \<lparr>m_id = 10, tier = ''golem'', hp = HpNull\<rparr>,
         \<lparr>m_id = 11, tier = ''dragon'', hp = HpNumber 25\<rparr>,
         \<lparr>m_id = 12, tier = ''dragon'', hp = HpString ''6x''\<rparr>,
         \<lparr>m_id = 13, tier = ''dragon'', hp = HpNull\<rparr>],
      DAY_EVENTS =
        [\<lparr>ev_id = 1, ev_name = ''Dia Normal'', count = 2\<rparr>,
         \<lparr>ev_id = 2, ev_name = ''Mazmorra Cerrada'', count = 1\<rparr>,
         \<lparr>ev_id = 3, ev_name = ''Monstruo Legendario'', count = 1\<rparr>],
      NIGHT_EVENTS =
        [\<lparr>ev_id = 1, ev_name = ''Noche Tranquila'', count = 2\<rparr>]\<rparr>"

definition samplePlayers :: "player list" where
  "samplePlayers =
     [\<lparr>pid = 0, name = ''Ana'', characterId = ''nyra'', gold = 3, mana = 2, maxMana = 4,
       equipment = []\<rparr>,
      \<lparr>pid = 1, name = ''Luis'', characterId = ''celeste'', gold = 5, mana = 5, maxMana = 5,
       equipment = []\<rparr>,
      \<lparr>pid = 2, name = ''Eva'', characterId = ''brom'', gold = 0, mana = 4, maxMana = 4,
       equipment = []\<rparr>]"

definition sampleDeck :: "int list" where
  "sampleDeck = [1, 2, 3, 5, 6, 7, 8, 9, 10, 11, 12, 13]"

definition sampleState :: state where
  "sampleState =
     \<lparr>phase = Game, previousPhase = Game,
      options = \<lparr>digitalMonsters = True, digitalEvents = True, fullTracking = True\<rparr>,
      players = samplePlayers,
      game =
        \<lparr>eventDeck =
           [\<lparr>e_type = Day, eventId = 1\<rparr>, \<lparr>e_type = Night, eventId = 1\<rparr>,
            \<lparr>e_type = Day, eventId = 2\<rparr>, \<lparr>e_type = Day, eventId = 3\<rparr>,
            \<lparr>e_type = Night, eventId = 1\<rparr>, \<lparr>e_type = Day, eventId = 1\<rparr>],
         eventIndex = 0, currentDay = 1, timeOfDay = Day,
         monsterDeck = sampleDeck,
         monsterDeckIndex = 0, monsterDefeated = False, pendingNotifications = []\<rparr>,
      duel =
        \<lparr>d_player1Id = None, d_player2Id = None, score1 = 0, score2 = 0, d_winnerId = None,
         matchId = None\<rparr>,
      monsterCombat =
        \<lparr>monsterId = None, maxHP = 0, currentHP = 0, combatantIds = [],
         combatantScores = Map.empty, isLegendary = False\<rparr>,
      tournament = \<lparr>t_phase = PhasePre, seeds = [], rounds = [], championId = None\<rparr>\<rparr>"

definition duelState :: state where
  "duelState =
     sampleState\<lparr>phase := Duel,
       duel := \<lparr>d_player1Id = Some 0, d_player2Id = Some 1, score1 = 0, score2 = 0,
                d_winnerId = None, matchId = None\<rparr>\<rparr>"

text \<open>The two slots of every match of a bracket, round by round.\<close>

definition slots :: "round list \<Rightarrow> (nat option \<times> nat option) list list" where
  "slots rs = map (\<lambda>r. map (\<lambda>m. (player1Id m, player2Id m)) (matches r)) rs"

text \<open>
  A roster of seven in tournament setup; a combat just opened on the first monster; and a
  session from the sample state: the first monster is fought and defeated on day 1 (four
  presses of a combatant's plus button), time advances to day 3 through a closed-dungeon
  day, which skips the second monster, and the third monster, the last duende of the deck,
  is fought under the legendary event until its 12 hit points are scored.
\<close>

definition sevenPlayers :: "player list" where
  "sevenPlayers =
     map (\<lambda>i. \<lparr>pid = i, name = ''P'', characterId = ''brom'', gold = 0, mana = 4, maxMana = 4,
                equipment = []\<rparr>) [0..<7]"

definition crowdedState :: state where
  "crowdedState =
     sampleState\<lparr>phase := Tournament, players := sevenPlayers,
       tournament := tournamentSetup (sampleState\<lparr>players := sevenPlayers\<rparr>)\<rparr>"

text \<open>
  No monster of the sample catalog has a plain numeric text, so the conversion given to
  the sample combats is never consulted; it is the constant \<^verbatim>\<open>NaN\<close>.
\<close>

definition sampleNumber :: "string \<Rightarrow> jsnum" where
  "sampleNumber t = NaN"

definition fightState :: state where
  "fightState = openMonsterCombat sampleCatalog sampleNumber sampleState"

definition firstVictory :: state where
  "firstVictory =
     navigateTo Game
       (fst (endMonsterCombat sampleCatalog
          ((adjustCombatantScore 0 1 ^^ 4)
             (setCombatant 0 True (openMonsterCombat sampleCatalog sampleNumber sampleState)))))"

definition thirdDay :: state where
  "thirdDay =
     advanceTime sampleCatalog (advanceTime sampleCatalog (advanceTime sampleCatalog firstVictory))"

definition wonState :: state where
  "wonState =
     (adjustCombatantScore 0 1 ^^ 12)
       (setCombatant 0 True (openMonsterCombat sampleCatalog sampleNumber thirdDay))"

section \<open>Theorems\<close>

subsection \<open>Hit points\<close>

lemma digitValue_digit: "n < 10 \<Longrightarrow> digitValue (char_of (48 + (n::nat))) = Some n"
  by (simp add: digitValue_def Let_def)

lemma isRadixDigit_digit: "n < 10 \<Longrightarrow> isRadixDigit 10 (char_of (48 + (n::nat)))"
  by (simp add: isRadixDigit_def digitValue_digit)

lemma not_digit_x: "\<not> isRadixDigit 10 (CHR ''x'')"
  by (simp add: isRadixDigit_def digitValue_def)

lemma decimal_digits: "list_all (isRadixDigit 10) (decimal n)"
proof (induction n rule: decimal.induct)
  case (1 n)
  show ?case
  proof (cases "n < 10")
    case True
    then show ?thesis by (subst decimal.simps) (simp add: isRadixDigit_digit)
  next
    case False
    with 1 show ?thesis by (subst decimal.simps) (simp add: isRadixDigit_digit)
  qed
qed

lemma digitsValue_snoc:
  "digitsValue R (Z @ [c]) = digitsValue R Z * R + (case digitValue c of None \<Rightarrow> 0 | Some d \<Rightarrow> d)"
  by (simp add: digitsValue_def)

lemma digitsValue_decimal: "digitsValue 10 (decimal n) = n"
proof (induction n rule: decimal.induct)
  case (1 n)
  show ?case
  proof (cases "n < 10")
    case True
    then show ?thesis by (subst decimal.simps) (simp add: digitsValue_def digitValue_digit)
  next
    case False
    with 1 show ?thesis
      by (subst decimal.simps) (simp add: digitsValue_snoc digitValue_digit)
  qed
qed

lemma decimal_nonempty: "decimal n \<noteq> []"
  by (subst decimal.simps) simp

text \<open>The text of a positive number starts with a digit from 1 to 9.\<close>

lemma hd_decimal:
  "0 < n \<Longrightarrow> \<exists>d::nat. 0 < d \<and> d < 10 \<and> hd (decimal n) = char_of (48 + d)"
proof (induction n rule: decimal.induct)
  case (1 n)
  show ?case
  proof (cases "n < 10")
    case True
    with 1(2) show ?thesis by (subst decimal.simps) auto
  next
    case False
    then have "0 < n div 10" by simp
    with 1(1)[OF False] obtain d :: nat
      where "0 < d" "d < 10" "hd (decimal (n div 10)) = char_of (48 + d)" by blast
    with False show ?thesis by (subst decimal.simps) (auto simp: decimal_nonempty)
  qed
qed

lemma digit_char_plain:
  assumes "0 < d" "d < 10" "c = char_of (48 + (d::nat))"
  shows "\<not> isWhiteSpace c \<and> c \<noteq> CHR ''-'' \<and> c \<noteq> CHR ''+'' \<and> c \<noteq> CHR ''0''"
proof -
  have v: "(of_char c :: nat) = 48 + d" using assms by simp
  have "c \<noteq> CHR ''0''" using v assms(1) by auto
  moreover have "c \<noteq> CHR ''-''" using v by auto
  moreover have "c \<noteq> CHR ''+''" using v by auto
  moreover have "\<not> isWhiteSpace c" using v by (auto simp: isWhiteSpace_def)
  ultimately show ?thesis by simp
qed

lemma takeWhile_digits_x: "takeWhile (isRadixDigit 10) (decimal k @ ''x'') = decimal k"
proof -
  have "\<forall>c \<in> set (decimal k). isRadixDigit 10 c"
    using decimal_digits [of k] by (simp add: list_all_iff)
  then show ?thesis by (simp add: takeWhile_append2 not_digit_x)
qed

text \<open>
  \<^verbatim>\<open>parseInt\<close> reads a positive multiplier back. The text \<^verbatim>\<open>0x\<close> is excluded: it is
  the prefix of a hexadecimal literal with no digit after it, and \<^verbatim>\<open>parseInt\<close> yields
  \<^verbatim>\<open>NaN\<close> for it.
\<close>

lemma parseInt_multiplier:
  assumes "0 < k"
  shows "parseInt (decimal k @ ''x'') = Num (int k)"
proof -
  obtain d :: nat where d: "0 < d" "d < 10" "hd (decimal k) = char_of (48 + d)"
    using hd_decimal [OF assms] by blast
  obtain c r where cr: "decimal k = c # r"
    using decimal_nonempty [of k] by (cases "decimal k") auto
  with d have c: "c = char_of (48 + d)" by simp
  note p = digit_char_plain [OF d(1) d(2) c]
  have ws: "dropWhile isWhiteSpace (decimal k @ ''x'') = decimal k @ ''x''"
    using p cr by simp
  have sg: "stripSign (decimal k @ ''x'') = (1, decimal k @ ''x'')"
    using p cr by (simp add: stripSign_def)
  have hx: "stripHexPrefix (decimal k @ ''x'') = (10, decimal k @ ''x'')"
    using p cr by (cases r) (simp_all add: stripHexPrefix_def)
  show ?thesis
    by (simp add: parseInt_def ws sg hx takeWhile_digits_x decimal_nonempty digitsValue_decimal)
qed

lemma parseInt_0x: "parseInt ''0x'' = NaN"
  by (simp add: parseInt_def isWhiteSpace_def stripSign_def stripHexPrefix_def)

lemma endsWith_multiplier: "endsWith (decimal k @ ''x'') ''x''"
  by (simp add: endsWith_def)

text \<open>
  C5, as the code has it. \<^verbatim>\<open>computeHP\<close> and \<^verbatim>\<open>computeHPDisplay\<close>, for every monster,
  player count, legendary flag and conversion of plain texts: a monster whose hit points
  are the special value is displayed as the special marker whatever the player count and
  the flag; a multiplier \<open>k\<close>x with \<open>k\<close> at least 1 gives \<open>k\<close> times the player count;
  a number gives that number, and a text that does not end in \<^verbatim>\<open>x\<close> gives the number
  \<^verbatim>\<open>Number\<close> reads from it; and the legendary flag doubles the base value, whichever
  branch computed it. With 4 players \<^verbatim>\<open>'3x'\<close> gives 12, and 24 when legendary; 10 with
  5 players and legendary gives 20.
\<close>

theorem computeEffectiveHP_formula:
  "(hp m = HpNull \<longrightarrow> computeHPDisplay toNumber m playerCount legendary = Especial) \<and>
   (0 < k \<and> hp m = multiplier k \<longrightarrow>
      computeHPDisplay toNumber m playerCount legendary =
        Shown (Num ((if legendary then 2 else 1) * (int k * int playerCount)))) \<and>
   (hp m = HpNumber n \<longrightarrow>
      computeHPDisplay toNumber m playerCount legendary =
        Shown (Num ((if legendary then 2 else 1) * n))) \<and>
   (hp m = HpString tx \<and> \<not> endsWith tx ''x'' \<longrightarrow>
      computeHPDisplay toNumber m playerCount legendary =
        Shown (if legendary then js_mul (toNumber tx) (Num 2) else toNumber tx)) \<and>
   computeHP toNumber m playerCount True =
     map_option (\<lambda>base. js_mul base (Num 2)) (computeHP toNumber m playerCount False) \<and>
   computeHPDisplay toNumber \<lparr>m_id = i, tier = t, hp = HpString ''3x''\<rparr> 4 False =
     Shown (Num 12) \<and>
   computeHPDisplay toNumber \<lparr>m_id = i, tier = t, hp = HpString ''3x''\<rparr> 4 True =
     Shown (Num 24) \<and>
   computeHPDisplay toNumber \<lparr>m_id = i, tier = t, hp = HpNumber 10\<rparr> 5 True = Shown (Num 20)"
proof -
  have special:
    "hp m = HpNull \<longrightarrow> computeHPDisplay toNumber m playerCount legendary = Especial"
    by (simp add: computeHPDisplay_def computeHP_def)
  have mult: "0 < k \<and> hp m = multiplier k \<longrightarrow>
      computeHPDisplay toNumber m playerCount legendary =
        Shown (Num ((if legendary then 2 else 1) * (int k * int playerCount)))"
    by (simp add: computeHPDisplay_def computeHP_def multiplier_def endsWith_multiplier
        parseInt_multiplier)
  have lit: "hp m = HpNumber n \<longrightarrow>
      computeHPDisplay toNumber m playerCount legendary =
        Shown (Num ((if legendary then 2 else 1) * n))"
    by (simp add: computeHPDisplay_def computeHP_def)
  have plain: "hp m = HpString tx \<and> \<not> endsWith tx ''x'' \<longrightarrow>
      computeHPDisplay toNumber m playerCount legendary =
        Shown (if legendary then js_mul (toNumber tx) (Num 2) else toNumber tx)"
    by (simp add: computeHPDisplay_def computeHP_def)
  have dbl: "computeHP toNumber m playerCount True =
      map_option (\<lambda>base. js_mul base (Num 2)) (computeHP toNumber m playerCount False)"
    by (simp add: computeHP_def split: hp_spec.split)
  have m3: "HpString ''3x'' = multiplier 3"
    by code_simp
  have e1: "computeHPDisplay toNumber \<lparr>m_id = i, tier = t, hp = HpString ''3x''\<rparr> 4 False =
      Shown (Num 12)"
    by (simp add: m3 computeHPDisplay_def computeHP_def multiplier_def endsWith_multiplier
        parseInt_multiplier)
  have e2: "computeHPDisplay toNumber \<lparr>m_id = i, tier = t, hp = HpString ''3x''\<rparr> 4 True =
      Shown (Num 24)"
    by (simp add: m3 computeHPDisplay_def computeHP_def multiplier_def endsWith_multiplier
        parseInt_multiplier)
  have e3: "computeHPDisplay toNumber \<lparr>m_id = i, tier = t, hp = HpNumber 10\<rparr> 5 True =
      Shown (Num 20)"
    by (simp add: computeHPDisplay_def computeHP_def)
  from special mult lit plain dbl e1 e2 e3 show ?thesis by blast
qed

theorem computeEffectiveHP_formula_witness:
  "hp \<lparr>m_id = 7, tier = ''golem'', hp = multiplier 5\<rparr> = multiplier 5 \<and> (0::nat) < 5 \<and>
   computeHPDisplay sampleNumber \<lparr>m_id = 7, tier = ''golem'', hp = multiplier 5\<rparr> 6 True =
     Shown (Num 60) \<and>
   computeHPDisplay sampleNumber \<lparr>m_id = 8, tier = ''golem'', hp = HpNull\<rparr> 6 True = Especial \<and>
   computeHPDisplay sampleNumber \<lparr>m_id = 9, tier = ''golem'', hp = HpNumber 14\<rparr> 6 False =
     Shown (Num 14) \<and>
   \<not> endsWith ''14'' ''x'' \<and>
   computeHPDisplay (\<lambda>tx. Num 14) \<lparr>m_id = 9, tier = ''golem'', hp = HpString ''14''\<rparr> 6 True =
     Shown (Num 28)"
proof -
  have nx: "\<not> endsWith ''14'' ''x''"
    by (simp add: endsWith_def)
  note w1 = computeEffectiveHP_formula
      [where m = "\<lparr>m_id = 7, tier = ''golem'', hp = multiplier 5\<rparr>" and playerCount = 6
         and legendary = True and k = 5 and toNumber = sampleNumber]
  note w2 = computeEffectiveHP_formula
      [where m = "\<lparr>m_id = 8, tier = ''golem'', hp = HpNull\<rparr>" and playerCount = 6
         and legendary = True and toNumber = sampleNumber]
  note w3 = computeEffectiveHP_formula
      [where m = "\<lparr>m_id = 9, tier = ''golem'', hp = HpNumber 14\<rparr>" and playerCount = 6
         and legendary = False and n = 14 and toNumber = sampleNumber]
  note w4 = computeEffectiveHP_formula
      [where m = "\<lparr>m_id = 9, tier = ''golem'', hp = HpString ''14''\<rparr>" and playerCount = 6
         and legendary = True and tx = "''14''" and toNumber = "\<lambda>tx. Num 14"]
  from w1 w2 w3 w4 nx
  show ?thesis by simp
qed

text \<open>
  The multiplier 0 is the text \<^verbatim>\<open>0x\<close>. \<^verbatim>\<open>parseInt\<close>, called with no radix, takes it
  for the prefix of a hexadecimal literal with no digit, and the hit points are
  \<^verbatim>\<open>NaN\<close>, not 0 times the player count.
\<close>

theorem computeEffectiveHP_zero_multiplier:
  "multiplier 0 = HpString ''0x'' \<and>
   computeHPDisplay sampleNumber \<lparr>m_id = 1, tier = ''duende'', hp = multiplier 0\<rparr> 4 False =
     Shown NaN \<and>
   computeHPDisplay sampleNumber \<lparr>m_id = 1, tier = ''duende'', hp = multiplier 0\<rparr> 4 False \<noteq>
     Shown (Num (0 * 4))"
proof -
  have m0: "multiplier 0 = HpString ''0x''"
    by code_simp
  have "computeHPDisplay sampleNumber \<lparr>m_id = 1, tier = ''duende'', hp = HpString ''0x''\<rparr> 4 False =
      Shown NaN"
    by (simp add: computeHPDisplay_def computeHP_def endsWith_def parseInt_0x)
  with m0 show ?thesis by simp
qed

subsection \<open>Shuffle and the decks\<close>

lemma length_shuffle_loop: "length (shuffle_loop rnd i a) = length a"
  by (induction i arbitrary: a) (simp_all add: Let_def)

lemma mset_shuffle_loop: "i < length a \<Longrightarrow> mset (shuffle_loop rnd i a) = mset a"
proof (induction i arbitrary: a)
  case 0
  then show ?case by simp
next
  case (Suc i)
  define j where "j = rnd (Suc i) mod (Suc i + 1)"
  have j: "j < length a" using Suc.prems by (simp add: j_def) (metis Suc.prems le_less_trans less_Suc_eq_le mod_less_divisor zero_less_Suc)
  have sw: "mset (a[Suc i := a ! j, j := a ! Suc i]) = mset a"
    using mset_swap [OF j Suc.prems] .
  have "mset (shuffle_loop rnd i (a[Suc i := a ! j, j := a ! Suc i])) = mset (a[Suc i := a ! j, j := a ! Suc i])"
    using Suc.prems by (intro Suc.IH) simp
  with sw show ?case by (simp add: Let_def j_def)
qed

lemma mset_shuffle: "mset (shuffle rnd xs) = mset xs"
proof (cases xs)
  case Nil
  then show ?thesis by (simp add: shuffle_def)
next
  case (Cons x r)
  then show ?thesis by (simp add: shuffle_def mset_shuffle_loop)
qed

lemma length_shuffle: "length (shuffle rnd xs) = length xs"
  by (simp add: shuffle_def length_shuffle_loop)

lemma set_shuffle: "set (shuffle rnd xs) = set xs"
  using mset_shuffle [of rnd xs] by (rule mset_eq_setD)

lemma distinct_shuffle: "distinct (shuffle rnd xs) = distinct xs"
  using mset_shuffle [of rnd xs] by (rule mset_eq_imp_distinct_iff)

lemma findIndex_None: "findIndex P xs = None \<longleftrightarrow> (\<forall>x \<in> set xs. \<not> P x)"
  by (induction xs) auto

lemma findIndex_Some:
  "findIndex (\<lambda>c. c = a) xs = Some k \<Longrightarrow>
     k < length xs \<and> xs ! k = a \<and> take k xs @ drop (Suc k) xs = remove1 a xs"
proof (induction xs arbitrary: k)
  case Nil
  then show ?case by simp
next
  case (Cons x xs)
  show ?case
  proof (cases "x = a")
    case True
    with Cons.prems show ?thesis by simp
  next
    case False
    with Cons.prems obtain k' where k': "findIndex (\<lambda>c. c = a) xs = Some k'" "k = Suc k'"
      by auto
    from Cons.IH [OF k'(1)] False k'(2) show ?thesis by simp
  qed
qed

lemma length_expand: "length (expand k evs) = sum_list (map count evs)"
  by (induction evs) simp_all

lemma set_expand:
  "set (expand k evs) = {\<lparr>e_type = k, eventId = ev_id ev\<rparr> | ev. ev \<in> set evs \<and> 0 < count ev}"
  by (induction evs) auto

lemma normalDay_pred: "(\<lambda>c. e_type c = Day \<and> eventId c = 1) = (\<lambda>c. c = normalDay)"
  by (auto simp: normalDay_def fun_eq_iff)

lemma buildCombinedEventDeck_eq:
  "buildCombinedEventDeck cat rnd =
     (let sh = shuffle rnd (expand Day (DAY_EVENTS cat) @ expand Night (NIGHT_EVENTS cat))
      in if normalDay \<in> set sh then normalDay # remove1 normalDay sh else normalDay # sh)"
proof -
  define sh where "sh = shuffle rnd (expand Day (DAY_EVENTS cat) @ expand Night (NIGHT_EVENTS cat))"
  show ?thesis
  proof (cases "findIndex (\<lambda>c. c = normalDay) sh")
    case None
    then have "normalDay \<notin> set sh" by (auto simp: findIndex_None)
    with None show ?thesis
      by (simp add: buildCombinedEventDeck_def normalDay_pred sh_def [symmetric])
        (simp add: normalDay_def)
  next
    case (Some k)
    note f = findIndex_Some [OF Some]
    then have mem: "normalDay \<in> set sh" by (metis nth_mem)
    show ?thesis
    proof (cases "k = 0")
      case True
      with f have "sh = normalDay # remove1 normalDay sh"
        by (cases sh) auto
      with Some True mem show ?thesis
        by (simp add: buildCombinedEventDeck_def normalDay_pred sh_def [symmetric])
    next
      case False
      with Some f mem show ?thesis
        by (simp add: buildCombinedEventDeck_def normalDay_pred sh_def [symmetric])
    qed
  qed
qed


text \<open>
  C3. \<^verbatim>\<open>buildCombinedEventDeck\<close>, for every catalog of day and night events and every
  sequence of draws: the deck is not empty and its first entry is the day card of event 1
  (Normal Day); the shuffled list \<open>sh\<close> is a permutation of the expanded catalog, and it
  holds a Normal Day card exactly when a day event with id 1 has a positive count. When
  it does, the deck has as many cards as the counts add up to and its rest is \<open>sh\<close> with
  the first Normal Day card removed, every other card in the order of \<open>sh\<close>; when it does
  not, a card is added in front of \<open>sh\<close> and the deck is one longer.
\<close>

theorem buildCombinedEventDeck_first_length_order:
  "(let sh = shuffle rnd (expand Day (DAY_EVENTS cat) @ expand Night (NIGHT_EVENTS cat));
        total = sum_list (map count (DAY_EVENTS cat)) + sum_list (map count (NIGHT_EVENTS cat));
        deck = buildCombinedEventDeck cat rnd
    in deck \<noteq> [] \<and> hd deck = \<lparr>e_type = Day, eventId = 1\<rparr> \<and>
       mset sh = mset (expand Day (DAY_EVENTS cat) @ expand Night (NIGHT_EVENTS cat)) \<and>
       (normalDay \<in> set sh \<longleftrightarrow> (\<exists>ev \<in> set (DAY_EVENTS cat). ev_id ev = 1 \<and> 0 < count ev)) \<and>
       (normalDay \<in> set sh \<longrightarrow> length deck = total \<and> tl deck = remove1 normalDay sh) \<and>
       (normalDay \<notin> set sh \<longrightarrow> length deck = total + 1 \<and> tl deck = sh))"
proof -
  define sh where "sh = shuffle rnd (expand Day (DAY_EVENTS cat) @ expand Night (NIGHT_EVENTS cat))"
  define total where
    "total = sum_list (map count (DAY_EVENTS cat)) + sum_list (map count (NIGHT_EVENTS cat))"
  have len: "length sh = total"
    by (simp add: sh_def total_def length_shuffle length_expand)
  have ms: "mset sh = mset (expand Day (DAY_EVENTS cat) @ expand Night (NIGHT_EVENTS cat))"
    unfolding sh_def by (rule mset_shuffle)
  have "set sh = set (expand Day (DAY_EVENTS cat)) \<union> set (expand Night (NIGHT_EVENTS cat))"
    by (simp add: sh_def set_shuffle)
  then have mem: "normalDay \<in> set sh \<longleftrightarrow> (\<exists>ev \<in> set (DAY_EVENTS cat). ev_id ev = 1 \<and> 0 < count ev)"
    by (auto simp: set_expand normalDay_def)
  have deck: "buildCombinedEventDeck cat rnd =
      (if normalDay \<in> set sh then normalDay # remove1 normalDay sh else normalDay # sh)"
    by (simp add: buildCombinedEventDeck_eq sh_def)
  have hd: "buildCombinedEventDeck cat rnd \<noteq> [] \<and>
      hd (buildCombinedEventDeck cat rnd) = \<lparr>e_type = Day, eventId = 1\<rparr>"
    by (simp add: deck normalDay_def)
  have a: "normalDay \<in> set sh \<longrightarrow>
      length (buildCombinedEventDeck cat rnd) = total \<and>
      tl (buildCombinedEventDeck cat rnd) = remove1 normalDay sh"
  proof
    assume m: "normalDay \<in> set sh"
    then have "0 < length sh" by (cases sh) auto
    with m len show "length (buildCombinedEventDeck cat rnd) = total \<and>
      tl (buildCombinedEventDeck cat rnd) = remove1 normalDay sh"
      by (simp add: deck length_remove1)
  qed
  have b: "normalDay \<notin> set sh \<longrightarrow>
      length (buildCombinedEventDeck cat rnd) = total + 1 \<and>
      tl (buildCombinedEventDeck cat rnd) = sh"
    by (simp add: deck len)
  from hd ms mem a b show ?thesis
    unfolding Let_def sh_def [symmetric] total_def [symmetric] by blast
qed

lemma buildMonsterDeck_eq:
  "buildMonsterDeck cat rnds =
     take 3 (shuffle (rnds 0) (tierIds cat ''duende'')) @
     take 3 (shuffle (rnds 1) (tierIds cat ''ogro'')) @
     take 3 (shuffle (rnds 2) (tierIds cat ''golem'')) @
     take 3 (shuffle (rnds 3) (tierIds cat ''dragon''))"
  by (simp add: buildMonsterDeck_def tiers_def tierIds_def numeral_2_eq_2 numeral_3_eq_3)

lemma find_distinct_id:
  "distinct (map m_id ms) \<Longrightarrow> m \<in> set ms \<Longrightarrow> find (\<lambda>x. m_id x = m_id m) ms = Some m"
  by (induction ms) (auto simp: image_iff)

lemma tierOf_tierIds:
  assumes "distinct (map m_id (MONSTERS cat))" "i \<in> set (tierIds cat t)"
  shows "tierOf cat i = Some t"
proof -
  from assms(2) obtain m where m: "m \<in> set (MONSTERS cat)" "tier m = t" "m_id m = i"
    by (auto simp: tierIds_def)
  with find_distinct_id [OF assms(1) m(1)] show ?thesis
    by (simp add: tierOf_def getMonster_def)
qed

lemma distinct_tierIds:
  "distinct (map m_id (MONSTERS cat)) \<Longrightarrow> distinct (tierIds cat t)"
  by (simp add: tierIds_def distinct_map_filter)

lemma group_props:
  assumes "distinct (map m_id (MONSTERS cat))" "3 \<le> length (tierIds cat t)"
  shows "length (take 3 (shuffle r (tierIds cat t))) = 3"
    and "distinct (take 3 (shuffle r (tierIds cat t)))"
    and "set (take 3 (shuffle r (tierIds cat t))) \<subseteq> set (tierIds cat t)"
    and "\<forall>i \<in> set (take 3 (shuffle r (tierIds cat t))). tierOf cat i = Some t"
proof -
  show "length (take 3 (shuffle r (tierIds cat t))) = 3"
    using assms(2) by (simp add: length_shuffle)
  show "distinct (take 3 (shuffle r (tierIds cat t)))"
    using distinct_tierIds [OF assms(1)] by (simp add: distinct_shuffle)
  show sub: "set (take 3 (shuffle r (tierIds cat t))) \<subseteq> set (tierIds cat t)"
    using set_take_subset [of 3 "shuffle r (tierIds cat t)"] by (simp add: set_shuffle)
  show "\<forall>i \<in> set (take 3 (shuffle r (tierIds cat t))). tierOf cat i = Some t"
    using sub tierOf_tierIds [OF assms(1)] by blast
qed

theorem buildCombinedEventDeck_first_length_order_witness:
  "normalDay \<in> set (shuffle (\<lambda>i. 0)
      (expand Day (DAY_EVENTS sampleCatalog) @ expand Night (NIGHT_EVENTS sampleCatalog))) \<and>
   length (buildCombinedEventDeck sampleCatalog (\<lambda>i. 0)) = 6 \<and>
   hd (buildCombinedEventDeck sampleCatalog (\<lambda>i. 0)) = \<lparr>e_type = Day, eventId = 1\<rparr>"
  using buildCombinedEventDeck_first_length_order [of "\<lambda>i. 0" sampleCatalog]
  by (simp add: Let_def sampleCatalog_def)

text \<open>
  C4. \<^verbatim>\<open>buildMonsterDeck\<close>, for every catalog whose ids are pairwise distinct (an id
  refers to one monster) with at least 3 monsters in each of the four tiers, and every
  sequence of draws: the deck has 12 ids, all different; for \<open>k = 0, 1, 2, 3\<close> the three
  ids at positions \<open>3k, 3k+1, 3k+2\<close> are the first three of the shuffled ids of the
  \<open>k\<close>-th tier in the order duende, ogro, golem, dragon: three ids of that tier's
  catalog, no id twice; and exactly three monsters of the deck are of that tier.
\<close>

theorem buildMonsterDeck_shape:
  assumes ids: "distinct (map m_id (MONSTERS cat))"
    and enough: "\<forall>t \<in> set tiers. 3 \<le> length (tierIds cat t)"
  shows "length (buildMonsterDeck cat rnds) = 12 \<and>
         distinct (buildMonsterDeck cat rnds) \<and>
         (\<forall>k<4.
            take 3 (drop (3 * k) (buildMonsterDeck cat rnds)) =
              take 3 (shuffle (rnds k) (tierIds cat (tiers ! k))) \<and>
            length (take 3 (drop (3 * k) (buildMonsterDeck cat rnds))) = 3 \<and>
            distinct (take 3 (drop (3 * k) (buildMonsterDeck cat rnds))) \<and>
            set (take 3 (drop (3 * k) (buildMonsterDeck cat rnds))) \<subseteq> set (tierIds cat (tiers ! k)) \<and>
            length (filter (\<lambda>i. tierOf cat i = Some (tiers ! k)) (buildMonsterDeck cat rnds)) = 3)"
proof -
  define g0 where "g0 = take 3 (shuffle (rnds 0) (tierIds cat ''duende''))"
  define g1 where "g1 = take 3 (shuffle (rnds 1) (tierIds cat ''ogro''))"
  define g2 where "g2 = take 3 (shuffle (rnds 2) (tierIds cat ''golem''))"
  define g3 where "g3 = take 3 (shuffle (rnds 3) (tierIds cat ''dragon''))"
  have deck: "buildMonsterDeck cat rnds = g0 @ g1 @ g2 @ g3"
    by (simp add: buildMonsterDeck_eq g0_def g1_def g2_def g3_def)
  have e: "3 \<le> length (tierIds cat ''duende'')" "3 \<le> length (tierIds cat ''ogro'')"
    "3 \<le> length (tierIds cat ''golem'')" "3 \<le> length (tierIds cat ''dragon'')"
    using enough by (simp_all add: tiers_def)
  note p0 = group_props [OF ids e(1), of "rnds 0", folded g0_def]
  note p1 = group_props [OF ids e(2), of "rnds 1", folded g1_def]
  note p2 = group_props [OF ids e(3), of "rnds 2", folded g2_def]
  note p3 = group_props [OF ids e(4), of "rnds 3", folded g3_def]
  have len: "length (buildMonsterDeck cat rnds) = 12"
    by (simp add: deck p0(1) p1(1) p2(1) p3(1))
  have f0: "filter (\<lambda>i. tierOf cat i = Some ''duende'') (g0 @ g1 @ g2 @ g3) = g0"
    using p0(4) p1(4) p2(4) p3(4) by (simp add: filter_id_conv filter_empty_conv)
  have f1: "filter (\<lambda>i. tierOf cat i = Some ''ogro'') (g0 @ g1 @ g2 @ g3) = g1"
    using p0(4) p1(4) p2(4) p3(4) by (simp add: filter_id_conv filter_empty_conv)
  have f2: "filter (\<lambda>i. tierOf cat i = Some ''golem'') (g0 @ g1 @ g2 @ g3) = g2"
    using p0(4) p1(4) p2(4) p3(4) by (simp add: filter_id_conv filter_empty_conv)
  have f3: "filter (\<lambda>i. tierOf cat i = Some ''dragon'') (g0 @ g1 @ g2 @ g3) = g3"
    using p0(4) p1(4) p2(4) p3(4) by (simp add: filter_id_conv filter_empty_conv)
  have disj: "set g0 \<inter> set g1 = {}" "set g0 \<inter> set g2 = {}" "set g0 \<inter> set g3 = {}"
    "set g1 \<inter> set g2 = {}" "set g1 \<inter> set g3 = {}" "set g2 \<inter> set g3 = {}"
    using p0(4) p1(4) p2(4) p3(4) by fastforce+
  have dist: "distinct (buildMonsterDeck cat rnds)"
    using disj p0(2) p1(2) p2(2) p3(2) by (auto simp: deck)
  have k0: "take 3 (drop (3 * 0) (g0 @ g1 @ g2 @ g3)) = g0"
    by (simp add: p0(1))
  have k1: "take 3 (drop (3 * 1) (g0 @ g1 @ g2 @ g3)) = g1"
    by (simp add: p0(1) p1(1))
  have k2: "take 3 (drop (3 * 2) (g0 @ g1 @ g2 @ g3)) = g2"
    by (simp add: p0(1) p1(1) p2(1))
  have k3: "take 3 (drop (3 * 3) (g0 @ g1 @ g2 @ g3)) = g3"
    by (simp add: p0(1) p1(1) p2(1) p3(1))
  have t: "tiers ! 0 = ''duende''" "tiers ! 1 = ''ogro''" "tiers ! 2 = ''golem''"
    "tiers ! 3 = ''dragon''"
    by (simp_all add: tiers_def)
  have groups: "take 3 (drop (3 * k) (buildMonsterDeck cat rnds)) =
              take 3 (shuffle (rnds k) (tierIds cat (tiers ! k))) \<and>
            length (take 3 (drop (3 * k) (buildMonsterDeck cat rnds))) = 3 \<and>
            distinct (take 3 (drop (3 * k) (buildMonsterDeck cat rnds))) \<and>
            set (take 3 (drop (3 * k) (buildMonsterDeck cat rnds))) \<subseteq> set (tierIds cat (tiers ! k)) \<and>
            length (filter (\<lambda>i. tierOf cat i = Some (tiers ! k)) (buildMonsterDeck cat rnds)) = 3"
    if "k < 4" for k
  proof -
    from that consider "k = 0" | "k = 1" | "k = 2" | "k = 3" by linarith
    then show ?thesis
    proof cases
      case 1
      show ?thesis unfolding 1 deck k0 t f0 using p0 by (simp add: g0_def)
    next
      case 2
      show ?thesis unfolding 2 deck k1 t f1 using p1 by (simp add: g1_def)
    next
      case 3
      show ?thesis unfolding 3 deck k2 t f2 using p2 by (simp add: g2_def)
    next
      case 4
      show ?thesis unfolding 4 deck k3 t f3 using p3 by (simp add: g3_def)
    qed
  qed
  from len dist groups show ?thesis by blast
qed

theorem buildMonsterDeck_shape_witness:
  "distinct (map m_id (MONSTERS sampleCatalog)) \<and>
   3 \<le> length (tierIds sampleCatalog ''duende'') \<and>
   length (buildMonsterDeck sampleCatalog (\<lambda>k i. i)) = 12 \<and>
   distinct (buildMonsterDeck sampleCatalog (\<lambda>k i. i))"
proof -
  have d: "distinct (map m_id (MONSTERS sampleCatalog))"
    by (simp add: sampleCatalog_def)
  have e: "\<forall>t \<in> set tiers. 3 \<le> length (tierIds sampleCatalog t)"
    by (simp add: tiers_def tierIds_def sampleCatalog_def)
  from buildMonsterDeck_shape [OF d e, of "\<lambda>k i. i"] d e show ?thesis
    by (simp add: tiers_def)
qed

subsection \<open>Starting a game and advancing time\<close>

lemma buildCombinedEventDeck_Cons:
  "\<exists>rest. buildCombinedEventDeck cat rnd = \<lparr>e_type = Day, eventId = 1\<rparr> # rest"
  by (simp add: buildCombinedEventDeck_eq Let_def normalDay_def)

text \<open>
  C10. \<^verbatim>\<open>startGame\<close>, for every roster whose players all have a class of the catalog and
  every sequence of draws: the new game is at day 1, in the day, with the event cursor and
  the monster-deck cursor at 0, the monster not resolved and no pending notification; its
  decks are the ones the two builders return for the draws, and the screen is the game
  screen. The roster keeps its length and its order: the player at each position keeps
  name and class, has the position as id, gold 0, no equipment, and mana and maximum mana
  equal to the maximum mana of that class in the catalog. Options, duel, combat and
  tournament are untouched.
\<close>

theorem startGame_initial:
  assumes valid: "\<forall>p \<in> set (players s). getChar cat (characterId p) \<noteq> None"
  shows "(let s' = startGame cat rndE rndsM s; g = game s'
          in currentDay g = 1 \<and> timeOfDay g = Day \<and> eventIndex g = 0 \<and>
             monsterDeckIndex g = 0 \<and> \<not> monsterDefeated g \<and> pendingNotifications g = [] \<and>
             eventDeck g = buildCombinedEventDeck cat rndE \<and>
             monsterDeck g = buildMonsterDeck cat rndsM \<and>
             phase s' = Game \<and> previousPhase s' = previousPhase s \<and> options s' = options s \<and>
             duel s' = duel s \<and> monsterCombat s' = monsterCombat s \<and>
             tournament s' = tournament s \<and>
             length (players s') = length (players s) \<and>
             (\<forall>i<length (players s).
                name (players s' ! i) = name (players s ! i) \<and>
                characterId (players s' ! i) = characterId (players s ! i) \<and>
                pid (players s' ! i) = i \<and>
                gold (players s' ! i) = 0 \<and>
                equipment (players s' ! i) = [] \<and>
                (\<exists>c. getChar cat (characterId (players s ! i)) = Some c \<and>
                     mana (players s' ! i) = c_maxMana c \<and>
                     maxMana (players s' ! i) = c_maxMana c)) \<and>
             (\<forall>p \<in> set (players s').
                gold p = 0 \<and>
                (\<exists>c. getChar cat (characterId p) = Some c \<and> mana p = c_maxMana c \<and>
                     maxMana p = c_maxMana c)))"
proof -
  let ?s' = "startGame cat rndE rndsM s"
  obtain rest where deck: "buildCombinedEventDeck cat rndE = \<lparr>e_type = Day, eventId = 1\<rparr> # rest"
    using buildCombinedEventDeck_Cons by blast
  have g: "currentDay (game ?s') = 1 \<and> timeOfDay (game ?s') = Day \<and>
      eventIndex (game ?s') = 0 \<and> monsterDeckIndex (game ?s') = 0 \<and>
      \<not> monsterDefeated (game ?s') \<and> pendingNotifications (game ?s') = []"
    by (simp add: startGame_def navigateTo_def deck Let_def)
  have decks: "eventDeck (game ?s') = buildCombinedEventDeck cat rndE \<and>
      monsterDeck (game ?s') = buildMonsterDeck cat rndsM"
    by (simp add: startGame_def navigateTo_def Let_def)
  have rest: "phase ?s' = Game \<and> previousPhase ?s' = previousPhase s \<and>
      options ?s' = options s \<and> duel ?s' = duel s \<and> monsterCombat ?s' = monsterCombat s \<and>
      tournament ?s' = tournament s"
    by (simp add: startGame_def navigateTo_def Let_def)
  have len: "length (players ?s') = length (players s)"
    by (simp add: startGame_def navigateTo_def Let_def)
  have at: "name (players ?s' ! i) = name (players s ! i) \<and>
      characterId (players ?s' ! i) = characterId (players s ! i) \<and>
      pid (players ?s' ! i) = i \<and> gold (players ?s' ! i) = 0 \<and>
      equipment (players ?s' ! i) = [] \<and>
      (\<exists>c. getChar cat (characterId (players s ! i)) = Some c \<and>
           mana (players ?s' ! i) = c_maxMana c \<and> maxMana (players ?s' ! i) = c_maxMana c)"
    if i: "i < length (players s)" for i
  proof -
    from i have "players s ! i \<in> set (players s)" by simp
    with valid obtain c where c: "getChar cat (characterId (players s ! i)) = Some c" by auto
    from i have e: "enumerate 0 (players s) ! i = (i, players s ! i)"
      by (simp add: nth_enumerate_eq)
    from i c e show ?thesis
      by (simp add: startGame_def navigateTo_def Let_def)
  qed
  have pl: "gold p = 0 \<and>
      (\<exists>c. getChar cat (characterId p) = Some c \<and> mana p = c_maxMana c \<and> maxMana p = c_maxMana c)"
    if "p \<in> set (players ?s')" for p
  proof -
    from that obtain i where i: "i < length (players s)" and p: "p = players ?s' ! i"
      using len by (metis in_set_conv_nth)
    from at [OF i] p show ?thesis by auto
  qed
  from g decks rest len at pl show ?thesis unfolding Let_def by blast
qed

theorem startGame_initial_witness:
  "getChar sampleCatalog ''nyra'' \<noteq> None \<and>
   currentDay (game (startGame sampleCatalog (\<lambda>i. i) (\<lambda>k i. 0) sampleState)) = 1 \<and>
   timeOfDay (game (startGame sampleCatalog (\<lambda>i. i) (\<lambda>k i. 0) sampleState)) = Day \<and>
   length (players (startGame sampleCatalog (\<lambda>i. i) (\<lambda>k i. 0) sampleState)) = 3 \<and>
   mana (players (startGame sampleCatalog (\<lambda>i. i) (\<lambda>k i. 0) sampleState) ! 0) = 4 \<and>
   mana (players (startGame sampleCatalog (\<lambda>i. i) (\<lambda>k i. 0) sampleState) ! 1) = 5 \<and>
   mana (players (startGame sampleCatalog (\<lambda>i. i) (\<lambda>k i. 0) sampleState) ! 2) = 4 \<and>
   characterId (players (startGame sampleCatalog (\<lambda>i. i) (\<lambda>k i. 0) sampleState) ! 1) =
     ''celeste''"
proof -
  let ?s' = "startGame sampleCatalog (\<lambda>i. i) (\<lambda>k i. 0) sampleState"
  have v: "\<forall>p \<in> set (players sampleState). getChar sampleCatalog (characterId p) \<noteq> None"
    by (simp add: sampleState_def samplePlayers_def getChar_def sampleCatalog_def)
  have n: "getChar sampleCatalog ''nyra'' \<noteq> None"
    by (simp add: getChar_def sampleCatalog_def)
  have l: "length (players sampleState) = 3"
    by (simp add: sampleState_def samplePlayers_def)
  note t = startGame_initial [OF v, of "\<lambda>i. i" "\<lambda>k i. 0", unfolded Let_def]
  from t have days: "currentDay (game ?s') = 1 \<and> timeOfDay (game ?s') = Day \<and>
      length (players ?s') = 3"
    using l by simp
  from t have each: "\<forall>i<3. characterId (players ?s' ! i) = characterId (players sampleState ! i) \<and>
      (\<exists>c. getChar sampleCatalog (characterId (players sampleState ! i)) = Some c \<and>
           mana (players ?s' ! i) = c_maxMana c)"
    using l by auto
  have c0: "characterId (players sampleState ! 0) = ''nyra''"
    and c1: "characterId (players sampleState ! 1) = ''celeste''"
    and c2: "characterId (players sampleState ! 2) = ''brom''"
    by (simp_all add: sampleState_def samplePlayers_def)
  have m: "getChar sampleCatalog ''nyra'' = Some \<lparr>c_id = ''nyra'', c_maxMana = 4\<rparr>"
    "getChar sampleCatalog ''celeste'' = Some \<lparr>c_id = ''celeste'', c_maxMana = 5\<rparr>"
    "getChar sampleCatalog ''brom'' = Some \<lparr>c_id = ''brom'', c_maxMana = 4\<rparr>"
    by (simp_all add: getChar_def sampleCatalog_def)
  from each [rule_format, of 0] c0 m(1) have "mana (players ?s' ! 0) = 4" by auto
  moreover from each [rule_format, of 1] c1 m(2) have "mana (players ?s' ! 1) = 5" by auto
  moreover from each [rule_format, of 2] c2 m(3) have "mana (players ?s' ! 2) = 4" by auto
  moreover from each [rule_format, of 1] c1 have "characterId (players ?s' ! 1) = ''celeste''"
    by auto
  ultimately show ?thesis using n days by simp
qed

lemma autoSkip_keeps:
  "eventDeck (game (autoSkip cat s)) = eventDeck (game s)"
  "eventIndex (game (autoSkip cat s)) = eventIndex (game s)"
  "currentDay (game (autoSkip cat s)) = currentDay (game s)"
  "timeOfDay (game (autoSkip cat s)) = timeOfDay (game s)"
  "players (autoSkip cat s) = players s"
  "phase (autoSkip cat s) = phase s"
  "tournament (autoSkip cat s) = tournament s"
  by (simp_all add: autoSkip_def Let_def split: option.split prod.split)

text \<open>
  C1. \<^verbatim>\<open>advanceTime\<close>, for every state. When the day counter is at least 12 and it is
  day, the event cursor stays where it is and the state moves to tournament setup: phase
  \<^verbatim>\<open>tournament\<close>, one seed per player in roster order with no rank, no round, no
  champion. Otherwise the event cursor advances by one; when it is then past the end of
  the deck the state moves to tournament setup in the same way; when it is not, the time
  of day becomes the type of the new entry, and a day entry increments the day counter
  and clears the monster-resolved flag, while a night entry leaves the day counter and
  does not clear the flag (it keeps the value left by the closed-dungeon check that
  opens \<^verbatim>\<open>advanceTime\<close>).
\<close>

theorem advanceTime_cases:
  "(let g = game s; s' = advanceTime cat s; g' = game s';
        setup = \<lparr>t_phase = PhasePre,
                 seeds = map (\<lambda>p. \<lparr>playerId = pid p, seedRank = None\<rparr>) (players s),
                 rounds = [], championId = None\<rparr>
    in (12 \<le> currentDay g \<and> timeOfDay g = Day \<longrightarrow>
          eventIndex g' = eventIndex g \<and> phase s' = Tournament \<and> tournament s' = setup \<and>
          currentDay g' = currentDay g \<and> timeOfDay g' = timeOfDay g) \<and>
       (\<not> (12 \<le> currentDay g \<and> timeOfDay g = Day) \<longrightarrow>
          eventIndex g' = eventIndex g + 1 \<and>
          (length (eventDeck g) \<le> eventIndex g + 1 \<longrightarrow>
             phase s' = Tournament \<and> tournament s' = setup \<and>
             currentDay g' = currentDay g \<and> timeOfDay g' = timeOfDay g) \<and>
          (eventIndex g + 1 < length (eventDeck g) \<longrightarrow>
             phase s' = phase s \<and> tournament s' = tournament s \<and>
             timeOfDay g' = e_type (eventDeck g ! (eventIndex g + 1)) \<and>
             (e_type (eventDeck g ! (eventIndex g + 1)) = Day \<longrightarrow>
                currentDay g' = currentDay g + 1 \<and> \<not> monsterDefeated g') \<and>
             (e_type (eventDeck g ! (eventIndex g + 1)) \<noteq> Day \<longrightarrow>
                currentDay g' = currentDay g \<and>
                monsterDefeated g' = monsterDefeated (game (autoSkip cat s))))) \<and>
       eventDeck g' = eventDeck g \<and> players s' = players s)"
proof -
  note k = autoSkip_keeps [of cat s]
  show ?thesis
    unfolding Let_def
    by (simp add: advanceTime_def Let_def navigateTo_def tournamentSetup_def k)
qed

theorem advanceTime_cases_witness:
  "phase (advanceTime sampleCatalog (sampleState\<lparr>game := (game sampleState)\<lparr>currentDay := 12\<rparr>\<rparr>))
     = Tournament \<and>
   eventIndex (game (advanceTime sampleCatalog
     (sampleState\<lparr>game := (game sampleState)\<lparr>currentDay := 12\<rparr>\<rparr>))) = 0 \<and>
   timeOfDay (game (advanceTime sampleCatalog sampleState)) = Night \<and>
   currentDay (game (advanceTime sampleCatalog sampleState)) = 1 \<and>
   eventIndex (game (advanceTime sampleCatalog sampleState)) = 1 \<and>
   currentDay (game (advanceTime sampleCatalog
     (sampleState\<lparr>game := (game sampleState)\<lparr>eventIndex := 1, timeOfDay := Night\<rparr>\<rparr>))) = 2 \<and>
   phase (advanceTime sampleCatalog
     (sampleState\<lparr>game := (game sampleState)\<lparr>eventIndex := 5\<rparr>\<rparr>)) = Tournament"
  using
    advanceTime_cases
      [of "sampleState\<lparr>game := (game sampleState)\<lparr>currentDay := 12\<rparr>\<rparr>" sampleCatalog]
    advanceTime_cases [of sampleState sampleCatalog]
    advanceTime_cases
      [of "sampleState\<lparr>game := (game sampleState)\<lparr>eventIndex := 1, timeOfDay := Night\<rparr>\<rparr>"
        sampleCatalog]
    advanceTime_cases
      [of "sampleState\<lparr>game := (game sampleState)\<lparr>eventIndex := 5\<rparr>\<rparr>" sampleCatalog]
  by (simp add: Let_def sampleState_def)

subsection \<open>Duel and tournament\<close>

lemma recordMatchResult_keeps:
  "duel (recordMatchResult m w s) = duel s"
  "players (recordMatchResult m w s) = players s"
  "game (recordMatchResult m w s) = game s"
  by (simp_all add: recordMatchResult_def navigateTo_def Let_def)

lemma handlePostDuel_keeps:
  "duel (handlePostDuel w s) = duel s"
  "players (handlePostDuel w s) = players s"
  "game (handlePostDuel w s) = game s"
  by (simp_all add: handlePostDuel_def recordMatchResult_keeps split: option.split)

text \<open>
  C9. \<^verbatim>\<open>declareWinner\<close>, for every pair of scores and every state: with equal scores it
  opens the tie dialog and returns the state as it was, so no winner is recorded and no
  player's gold, mana or equipment changes; with different scores the winner recorded
  in the duel is the player of the higher score (player 1 when the first score is higher,
  player 2 otherwise), the dialog is not the tie dialog, and \<^verbatim>\<open>declareWinner\<close> itself
  changes no player.
\<close>

theorem declareWinner_tie_and_winner:
  "declareWinner a a s = (s, Some Empate) \<and>
   (a \<noteq> b \<longrightarrow>
      d_winnerId (duel (fst (declareWinner a b s))) =
        (if b < a then d_player1Id (duel s) else d_player2Id (duel s)) \<and>
      snd (declareWinner a b s) \<noteq> Some Empate \<and>
      players (fst (declareWinner a b s)) = players s)"
  by (simp add: declareWinner_def Let_def handlePostDuel_keeps)

theorem declareWinner_tie_and_winner_witness:
  "(3::nat) \<noteq> 5 \<and>
   declareWinner 5 5 duelState = (duelState, Some Empate) \<and>
   d_winnerId (duel (fst (declareWinner 5 5 duelState))) = None \<and>
   d_winnerId (duel (fst (declareWinner 3 5 duelState))) = Some 1 \<and>
   d_winnerId (duel (fst (declareWinner 5 3 duelState))) = Some 0 \<and>
   players (fst (declareWinner 3 5 duelState)) = players duelState"
  using declareWinner_tie_and_winner [where a = 5 and b = 5 and s = duelState]
    declareWinner_tie_and_winner [where a = 3 and b = 5 and s = duelState]
    declareWinner_tie_and_winner [where a = 5 and b = 3 and s = duelState]
  by (simp add: duelState_def sampleState_def)

lemma slots_updateMatch:
  assumes "\<And>m. player1Id (f m) = player1Id m \<and> player2Id (f m) = player2Id m"
  shows "slots (updateMatch pos f rs) = slots rs"
proof (cases pos)
  case (Pair i j)
  have inner: "map (\<lambda>m. (player1Id m, player2Id m)) (ms[j := f (ms ! j)]) =
      map (\<lambda>m. (player1Id m, player2Id m)) ms" for ms :: "match list"
    by (cases "j < length ms")
      (simp_all add: map_update assms list_update_same_conv list_update_beyond)
  let ?h = "\<lambda>r. map (\<lambda>m. (player1Id m, player2Id m)) (matches r)"
  let ?x = "(rs ! i)\<lparr>matches := (matches (rs ! i))[j := f (matches (rs ! i) ! j)]\<rparr>"
  have hx: "?h ?x = ?h (rs ! i)"
    by (simp add: inner)
  have "map ?h (rs[i := ?x]) = (map ?h rs)[i := ?h ?x]"
    by (rule map_update)
  also have "\<dots> = (map ?h rs)[i := ?h (rs ! i)]"
    by (simp only: hx)
  also have "\<dots> = map ?h rs"
    by (cases "i < length rs") (simp_all add: list_update_same_conv list_update_beyond)
  finally show ?thesis
    by (simp add: slots_def updateMatch_def Pair)
qed

lemma slots_final:
  "slots (rounds (tournament (recordMatchResult ''final'' w s))) = slots (rounds (tournament s))"
  by (simp add: recordMatchResult_def navigateTo_def Let_def slots_updateMatch split: option.split)

text \<open>
  C2. Propagation in the bracket of four, for every seed list and all winners: after
  \<^verbatim>\<open>recordMatchResult('sf1', w1)\<close> and \<^verbatim>\<open>recordMatchResult('sf2', w2)\<close> the two
  semifinals carry their winners, the slots of the final are \<open>w1\<close> and \<open>w2\<close>, and the
  champion and the tournament phase are as before. \<^verbatim>\<open>recordMatchResult('final', w)\<close>
  then sets the champion to \<open>w\<close> and the tournament phase to \<^verbatim>\<open>champion\<close>, records \<open>w\<close>
  as the winner of the final and leaves the two slots of every match as they were; it
  leaves them so in every state.
\<close>

theorem recordMatchResult_4p:
  "(let s0 = s\<lparr>tournament := (tournament s)\<lparr>rounds := buildBracket4p sds\<rparr>\<rparr>;
        s2 = recordMatchResult ''sf2'' w2 (recordMatchResult ''sf1'' w1 s0);
        s3 = recordMatchResult ''final'' w s2
    in rounds (tournament s2) =
         [\<lparr>r_name = ''Semifinal'', matches =
             [\<lparr>mid = ''sf1'', player1Id = nth_opt sds 0, player2Id = nth_opt sds 3,
               advantagePlayerId = nth_opt sds 0, winnerId = w1, feedsFrom = (None, None)\<rparr>,
              \<lparr>mid = ''sf2'', player1Id = nth_opt sds 1, player2Id = nth_opt sds 2,
               advantagePlayerId = nth_opt sds 1, winnerId = w2, feedsFrom = (None, None)\<rparr>]\<rparr>,
          \<lparr>r_name = ''Final'', matches =
             [\<lparr>mid = ''final'', player1Id = w1, player2Id = w2,
               advantagePlayerId = None, winnerId = None,
               feedsFrom = (Some \<lparr>f_matchId = ''sf1'', slot = 1\<rparr>,
                            Some \<lparr>f_matchId = ''sf2'', slot = 1\<rparr>)\<rparr>]\<rparr>] \<and>
       championId (tournament s2) = championId (tournament s) \<and>
       t_phase (tournament s2) = t_phase (tournament s) \<and>
       championId (tournament s3) = w \<and>
       t_phase (tournament s3) = PhaseChampion \<and>
       phase s3 = Tournament \<and>
       rounds (tournament s3) =
         [\<lparr>r_name = ''Semifinal'', matches =
             [\<lparr>mid = ''sf1'', player1Id = nth_opt sds 0, player2Id = nth_opt sds 3,
               advantagePlayerId = nth_opt sds 0, winnerId = w1, feedsFrom = (None, None)\<rparr>,
              \<lparr>mid = ''sf2'', player1Id = nth_opt sds 1, player2Id = nth_opt sds 2,
               advantagePlayerId = nth_opt sds 1, winnerId = w2, feedsFrom = (None, None)\<rparr>]\<rparr>,
          \<lparr>r_name = ''Final'', matches =
             [\<lparr>mid = ''final'', player1Id = w1, player2Id = w2,
               advantagePlayerId = None, winnerId = w,
               feedsFrom = (Some \<lparr>f_matchId = ''sf1'', slot = 1\<rparr>,
                            Some \<lparr>f_matchId = ''sf2'', slot = 1\<rparr>)\<rparr>]\<rparr>] \<and>
       slots (rounds (tournament s3)) = slots (rounds (tournament s2)) \<and>
       slots (rounds (tournament (recordMatchResult ''final'' w s))) = slots (rounds (tournament s)))"
proof -
  define s0 where "s0 = s\<lparr>tournament := (tournament s)\<lparr>rounds := buildBracket4p sds\<rparr>\<rparr>"
  define s1 where "s1 = recordMatchResult ''sf1'' w1 s0"
  define s2 where "s2 = recordMatchResult ''sf2'' w2 s1"
  have r1: "tournament s1 = (tournament s)\<lparr>rounds :=
         [\<lparr>r_name = ''Semifinal'', matches =
             [\<lparr>mid = ''sf1'', player1Id = nth_opt sds 0, player2Id = nth_opt sds 3,
               advantagePlayerId = nth_opt sds 0, winnerId = w1, feedsFrom = (None, None)\<rparr>,
              \<lparr>mid = ''sf2'', player1Id = nth_opt sds 1, player2Id = nth_opt sds 2,
               advantagePlayerId = nth_opt sds 1, winnerId = None, feedsFrom = (None, None)\<rparr>]\<rparr>,
          \<lparr>r_name = ''Final'', matches =
             [\<lparr>mid = ''final'', player1Id = w1, player2Id = None,
               advantagePlayerId = None, winnerId = None,
               feedsFrom = (Some \<lparr>f_matchId = ''sf1'', slot = 1\<rparr>,
                            Some \<lparr>f_matchId = ''sf2'', slot = 1\<rparr>)\<rparr>]\<rparr>]\<rparr>"
    by (simp add: s1_def s0_def recordMatchResult_def navigateTo_def Let_def buildBracket4p_def
        updateMatch_def propagateWinner_def propagateMatch_def)
  have r2: "tournament s2 = (tournament s)\<lparr>rounds :=
         [\<lparr>r_name = ''Semifinal'', matches =
             [\<lparr>mid = ''sf1'', player1Id = nth_opt sds 0, player2Id = nth_opt sds 3,
               advantagePlayerId = nth_opt sds 0, winnerId = w1, feedsFrom = (None, None)\<rparr>,
              \<lparr>mid = ''sf2'', player1Id = nth_opt sds 1, player2Id = nth_opt sds 2,
               advantagePlayerId = nth_opt sds 1, winnerId = w2, feedsFrom = (None, None)\<rparr>]\<rparr>,
          \<lparr>r_name = ''Final'', matches =
             [\<lparr>mid = ''final'', player1Id = w1, player2Id = w2,
               advantagePlayerId = None, winnerId = None,
               feedsFrom = (Some \<lparr>f_matchId = ''sf1'', slot = 1\<rparr>,
                            Some \<lparr>f_matchId = ''sf2'', slot = 1\<rparr>)\<rparr>]\<rparr>]\<rparr>"
    by (simp add: s2_def recordMatchResult_def navigateTo_def Let_def r1
        updateMatch_def propagateWinner_def propagateMatch_def)
  have r3: "rounds (tournament (recordMatchResult ''final'' w s2)) =
         [\<lparr>r_name = ''Semifinal'', matches =
             [\<lparr>mid = ''sf1'', player1Id = nth_opt sds 0, player2Id = nth_opt sds 3,
               advantagePlayerId = nth_opt sds 0, winnerId = w1, feedsFrom = (None, None)\<rparr>,
              \<lparr>mid = ''sf2'', player1Id = nth_opt sds 1, player2Id = nth_opt sds 2,
               advantagePlayerId = nth_opt sds 1, winnerId = w2, feedsFrom = (None, None)\<rparr>]\<rparr>,
          \<lparr>r_name = ''Final'', matches =
             [\<lparr>mid = ''final'', player1Id = w1, player2Id = w2,
               advantagePlayerId = None, winnerId = w,
               feedsFrom = (Some \<lparr>f_matchId = ''sf1'', slot = 1\<rparr>,
                            Some \<lparr>f_matchId = ''sf2'', slot = 1\<rparr>)\<rparr>]\<rparr>]"
    by (simp add: recordMatchResult_def navigateTo_def Let_def r2 updateMatch_def)
  have f1: "championId (tournament (recordMatchResult ''final'' w s2)) = w"
    by (simp add: recordMatchResult_def navigateTo_def Let_def)
  have f2: "t_phase (tournament (recordMatchResult ''final'' w s2)) = PhaseChampion"
    by (simp add: recordMatchResult_def navigateTo_def Let_def)
  have f3: "phase (recordMatchResult ''final'' w s2) = Tournament"
    by (simp add: recordMatchResult_def navigateTo_def Let_def)
  have a: "rounds (tournament s2) =
         [\<lparr>r_name = ''Semifinal'', matches =
             [\<lparr>mid = ''sf1'', player1Id = nth_opt sds 0, player2Id = nth_opt sds 3,
               advantagePlayerId = nth_opt sds 0, winnerId = w1, feedsFrom = (None, None)\<rparr>,
              \<lparr>mid = ''sf2'', player1Id = nth_opt sds 1, player2Id = nth_opt sds 2,
               advantagePlayerId = nth_opt sds 1, winnerId = w2, feedsFrom = (None, None)\<rparr>]\<rparr>,
          \<lparr>r_name = ''Final'', matches =
             [\<lparr>mid = ''final'', player1Id = w1, player2Id = w2,
               advantagePlayerId = None, winnerId = None,
               feedsFrom = (Some \<lparr>f_matchId = ''sf1'', slot = 1\<rparr>,
                            Some \<lparr>f_matchId = ''sf2'', slot = 1\<rparr>)\<rparr>]\<rparr>]"
    by (simp add: r2)
  have b1: "championId (tournament s2) = championId (tournament s)"
    by (simp add: r2)
  have b2: "t_phase (tournament s2) = t_phase (tournament s)"
    by (simp add: r2)
  have sl: "slots (rounds (tournament (recordMatchResult ''final'' w s2))) =
      slots (rounds (tournament s2))"
    by (rule slots_final)
  have slg: "slots (rounds (tournament (recordMatchResult ''final'' w s))) =
      slots (rounds (tournament s))"
    by (rule slots_final)
  show ?thesis
    unfolding Let_def s0_def [symmetric] s1_def [symmetric] s2_def [symmetric]
    by (intro conjI a b1 b2 f1 f2 f3 r3 sl slg)
qed

theorem recordMatchResult_4p_witness:
  "championId (tournament
     (recordMatchResult ''final'' (Some 10)
       (recordMatchResult ''sf2'' (Some 12)
         (recordMatchResult ''sf1'' (Some 10)
           (sampleState\<lparr>tournament :=
              (tournament sampleState)\<lparr>rounds := buildBracket4p [10, 11, 12, 13]\<rparr>\<rparr>))))) = Some 10 \<and>
   slots (rounds (tournament
     (recordMatchResult ''sf2'' (Some 12)
       (recordMatchResult ''sf1'' (Some 10)
         (sampleState\<lparr>tournament :=
            (tournament sampleState)\<lparr>rounds := buildBracket4p [10, 11, 12, 13]\<rparr>\<rparr>))))) =
     [[(Some 10, Some 13), (Some 11, Some 12)], [(Some 10, Some 12)]]"
  using recordMatchResult_4p
    [where s = sampleState and sds = "[10, 11, 12, 13]" and ?w1.0 = "Some 10"
       and ?w2.0 = "Some 12" and w = "Some 10"]
  by (simp add: Let_def slots_def nth_opt_def)

subsection \<open>Bracket building outside 3 to 6 players, and the end of a combat\<close>

text \<open>
  C8, as the code has it. For every state whose player count is below 3 or above 6 and
  every sequence of draws, \<^verbatim>\<open>startTournament\<close> signals nothing and does not stop: it
  ranks the seeds, enters the bracket phase and builds the bracket of four from the first
  four seeds in rank order (a seed that does not exist leaves its slot empty); the
  champion, the screen and the players are unchanged.
\<close>

theorem startTournament_fallback:
  "length (players s) < 3 \<or> 6 < length (players s) \<Longrightarrow>
   (let s' = startTournament rnd s
    in t_phase (tournament s') = PhaseBracket \<and>
       seeds (tournament s') =
         assignRanks 0 (shuffle rnd [0..<length (seeds (tournament s))]) (seeds (tournament s)) \<and>
       rounds (tournament s') =
         buildBracket4p
           (take 4 (map playerId
              (sort_key (\<lambda>a. case seedRank a of None \<Rightarrow> 0 | Some r \<Rightarrow> r) (seeds (tournament s'))))) \<and>
       championId (tournament s') = championId (tournament s) \<and>
       phase s' = phase s \<and> players s' = players s)"
  by (auto simp add: startTournament_def Let_def)

lemma crowded_players: "length (players crowdedState) = 7"
  by (simp add: crowdedState_def sevenPlayers_def)

theorem startTournament_fallback_witness:
  "6 < length (players crowdedState) \<and>
   t_phase (tournament (startTournament (\<lambda>i. 0) crowdedState)) = PhaseBracket \<and>
   phase (startTournament (\<lambda>i. 0) crowdedState) = Tournament"
  using startTournament_fallback [of crowdedState "\<lambda>i. 0"] crowded_players
  by (simp add: Let_def crowdedState_def)

text \<open>
  With seven players \<^verbatim>\<open>startTournament\<close> builds the bracket of four of the players
  ranked 1 to 4 and enters the bracket phase: it does not refuse the roster.
\<close>

theorem startTournament_seven_players:
  "length (players crowdedState) = 7 \<and>
   t_phase (tournament (startTournament (\<lambda>i. 0) crowdedState)) = PhaseBracket \<and>
   rounds (tournament (startTournament (\<lambda>i. 0) crowdedState)) = buildBracket4p [1, 2, 3, 4]"
proof -
  have "rounds (tournament (startTournament (\<lambda>i. 0) crowdedState)) = buildBracket4p [1, 2, 3, 4]"
    by code_simp
  moreover have "t_phase (tournament (startTournament (\<lambda>i. 0) crowdedState)) = PhaseBracket"
    by (simp add: startTournament_def Let_def)
  ultimately show ?thesis using crowded_players by simp
qed

text \<open>
  C7, as the code has it. Whenever \<^verbatim>\<open>endMonsterCombat\<close> finds the monster not defeated
  (current hit points above 0) it opens the failure dialog and returns the state as it
  was: the monster-resolved flag keeps its value, the monster-deck cursor does not move,
  no notification is queued and no player changes.
\<close>

theorem endMonsterCombat_failure:
  "0 < currentHP (monsterCombat s) \<Longrightarrow>
   endMonsterCombat cat s = (s, CombateFallido) \<and>
   monsterDefeated (game (fst (endMonsterCombat cat s))) = monsterDefeated (game s) \<and>
   monsterDeckIndex (game (fst (endMonsterCombat cat s))) = monsterDeckIndex (game s) \<and>
   pendingNotifications (game (fst (endMonsterCombat cat s))) = pendingNotifications (game s) \<and>
   players (fst (endMonsterCombat cat s)) = players s"
  by (simp add: endMonsterCombat_def Let_def)

lemma fightState_hp:
  "currentHP (monsterCombat fightState) = 4"
  "monsterDefeated (game fightState) = False"
  "phase fightState = MonsterCombat"
  by code_simp+

theorem endMonsterCombat_failure_witness:
  "0 < currentHP (monsterCombat fightState) \<and>
   endMonsterCombat sampleCatalog fightState = (fightState, CombateFallido)"
  using endMonsterCombat_failure [of fightState sampleCatalog] fightState_hp
  by simp

text \<open>
  A combat opened on the first monster of the sample deck and ended at once is a failure,
  and the monster-resolved flag is still false afterwards.
\<close>

theorem endMonsterCombat_failure_leaves_unresolved:
  "0 < currentHP (monsterCombat fightState) \<and>
   snd (endMonsterCombat sampleCatalog fightState) = CombateFallido \<and>
   \<not> monsterDefeated (game (fst (endMonsterCombat sampleCatalog fightState)))"
  by (simp add: endMonsterCombat_def Let_def fightState_hp)

lemma presses:
  assumes "combatantIds (monsterCombat s) = [p]"
    and "combatantScores (monsterCombat s) p = Some v"
    and "0 \<le> v"
    and "currentHP (monsterCombat s) = maxHP (monsterCombat s) - v"
  shows "(adjustCombatantScore p 1 ^^ n) s =
     s\<lparr>monsterCombat := (monsterCombat s)
         \<lparr>combatantScores := (combatantScores (monsterCombat s))(p \<mapsto> v + int n),
          currentHP := maxHP (monsterCombat s) - (v + int n)\<rparr>\<rparr>"
proof (induction n)
  case 0
  have "(combatantScores (monsterCombat s))(p \<mapsto> v) = combatantScores (monsterCombat s)"
    using assms(2) by (simp add: fun_upd_idem)
  with assms(4) show ?case by simp
next
  case (Suc n)
  let ?sn = "s\<lparr>monsterCombat := (monsterCombat s)
         \<lparr>combatantScores := (combatantScores (monsterCombat s))(p \<mapsto> v + int n),
          currentHP := maxHP (monsterCombat s) - (v + int n)\<rparr>\<rparr>"
  have "(adjustCombatantScore p 1 ^^ Suc n) s = adjustCombatantScore p 1 ?sn"
    by (simp only: funpow.simps o_apply Suc.IH)
  also have "\<dots> = s\<lparr>monsterCombat := (monsterCombat s)
         \<lparr>combatantScores := (combatantScores (monsterCombat s))(p \<mapsto> v + int (Suc n)),
          currentHP := maxHP (monsterCombat s) - (v + int (Suc n))\<rparr>\<rparr>"
    using assms by (simp add: adjustCombatantScore_def recalcMonsterHP_def Let_def algebra_simps)
  finally show ?case .
qed

lemma sampleDeck_nth: "sampleDeck ! 0 = 1" "sampleDeck ! 1 = 2" "sampleDeck ! 2 = 3"
  "length sampleDeck = 12"
  by (simp_all add: sampleDeck_def)

lemma sample_monsters:
  "getMonster sampleCatalog 1 = Some \<lparr>m_id = 1, tier = ''duende'', hp = HpNumber 4\<rparr>"
  "getMonster sampleCatalog 2 = Some \<lparr>m_id = 2, tier = ''duende'', hp = HpNumber 5\<rparr>"
  "getMonster sampleCatalog 3 = Some \<lparr>m_id = 3, tier = ''duende'', hp = HpString ''2x''\<rparr>"
  by (simp_all add: getMonster_def sampleCatalog_def)

lemma sample_events:
  "DAY_EVENTS sampleCatalog =
     [\<lparr>ev_id = 1, ev_name = ''Dia Normal'', count = 2\<rparr>,
      \<lparr>ev_id = 2, ev_name = ''Mazmorra Cerrada'', count = 1\<rparr>,
      \<lparr>ev_id = 3, ev_name = ''Monstruo Legendario'', count = 1\<rparr>]"
  "NIGHT_EVENTS sampleCatalog = [\<lparr>ev_id = 1, ev_name = ''Noche Tranquila'', count = 2\<rparr>]"
  by (simp_all add: sampleCatalog_def)

lemma parseInt_2x: "parseInt ''2x'' = Num 2"
  by code_simp

lemma hp_2x:
  "computeHP N \<lparr>m_id = 3, tier = ''duende'', hp = HpString ''2x''\<rparr> pc True =
     Some (Num (int pc * 4))"
  by (simp add: computeHP_def endsWith_def parseInt_2x)

lemma hp_4:
  "computeHP N \<lparr>m_id = 1, tier = ''duende'', hp = HpNumber 4\<rparr> pc False = Some (Num 4)"
  by (simp add: computeHP_def)

lemma picked1:
  "setCombatant 0 True (openMonsterCombat sampleCatalog sampleNumber sampleState) =
     sampleState\<lparr>phase := MonsterCombat,
       monsterCombat := \<lparr>monsterId = Some 1, maxHP = 4, currentHP = 4, combatantIds = [0],
         combatantScores = [0 \<mapsto> 0], isLegendary = False\<rparr>\<rparr>"
  by (simp add: setCombatant_def openMonsterCombat_def navigateTo_def recalcMonsterHP_def Let_def
      sampleState_def samplePlayers_def sample_monsters sample_events currentEvent_def hp_4
      sampleDeck_nth)


lemma sample_duende_indices:
  "filter (\<lambda>i. case getMonster sampleCatalog (sampleDeck ! i) of
                  Some m \<Rightarrow> tier m = ''duende'' | None \<Rightarrow> False) [0..<length sampleDeck] =
     [0, 1, 2]"
  by code_simp


lemma check_sample_duende:
  "checkTierCompletion sampleCatalog sampleDeck c ''duende'' s =
     (if 2 < c
      then s\<lparr>game := (game s)\<lparr>pendingNotifications :=
                                 pendingNotifications (game s) @ [TierCompleted ''duende'']\<rparr>,
             players := map (\<lambda>p. p\<lparr>maxMana := maxMana p + 1,
                                    mana := min (mana p + 1) (maxMana p + 1)\<rparr>)
                            (players s)\<rparr>
      else s)"
  by (simp add: checkTierCompletion_def Let_def sample_duende_indices)

lemma scored1:
  "(adjustCombatantScore 0 1 ^^ 4)
       (setCombatant 0 True (openMonsterCombat sampleCatalog sampleNumber sampleState)) =
     sampleState\<lparr>phase := MonsterCombat,
       monsterCombat := \<lparr>monsterId = Some 1, maxHP = 4, currentHP = 0, combatantIds = [0],
         combatantScores = [0 \<mapsto> 4], isLegendary = False\<rparr>\<rparr>"
  by (simp add: picked1 presses [where v = 0])

lemma firstVictory_eq:
  "firstVictory =
     sampleState\<lparr>phase := Game,
       game := (game sampleState)\<lparr>monsterDeckIndex := 1, monsterDefeated := True\<rparr>,
       monsterCombat := \<lparr>monsterId = Some 1, maxHP = 4, currentHP = 0, combatantIds = [0],
         combatantScores = [0 \<mapsto> 4], isLegendary = False\<rparr>\<rparr>"
  by (simp add: firstVictory_def scored1 endMonsterCombat_def Let_def sample_monsters
      navigateTo_def)
    (simp add: sampleState_def check_sample_duende)

lemma thirdDay_eq:
  "thirdDay =
     sampleState\<lparr>phase := Game,
       game := (game sampleState)\<lparr>eventIndex := 3, currentDay := 3, timeOfDay := Day,
                 monsterDeckIndex := 2, monsterDefeated := False\<rparr>,
       monsterCombat := \<lparr>monsterId = Some 1, maxHP = 4, currentHP = 0, combatantIds = [0],
         combatantScores = [0 \<mapsto> 4], isLegendary = False\<rparr>\<rparr>"
  by (simp add: thirdDay_def firstVictory_eq advanceTime_def autoSkip_def currentEvent_def Let_def
      sample_events sampleState_def)

lemma picked3:
  "setCombatant 0 True (openMonsterCombat sampleCatalog sampleNumber thirdDay) =
     thirdDay\<lparr>phase := MonsterCombat,
       monsterCombat := \<lparr>monsterId = Some 3, maxHP = 12, currentHP = 12, combatantIds = [0],
         combatantScores = [0 \<mapsto> 0], isLegendary = True\<rparr>\<rparr>"
  by (simp add: thirdDay_eq setCombatant_def openMonsterCombat_def navigateTo_def
      recalcMonsterHP_def Let_def sampleState_def samplePlayers_def sample_monsters sample_events
      currentEvent_def hp_2x sampleDeck_nth)

lemma wonState_eq:
  "wonState =
     thirdDay\<lparr>phase := MonsterCombat,
       monsterCombat := \<lparr>monsterId = Some 3, maxHP = 12, currentHP = 0, combatantIds = [0],
         combatantScores = [0 \<mapsto> 12], isLegendary = True\<rparr>\<rparr>"
  by (simp add: wonState_def picked3 presses [where v = 0])

lemma thirdDay_fields:
  "monsterDeck (game thirdDay) = sampleDeck"
  "monsterDeckIndex (game thirdDay) = 2"
  "currentDay (game thirdDay) = 3"
  "pendingNotifications (game thirdDay) = []"
  "map maxMana (players thirdDay) = [4, 5, 4]"
  by (simp_all add: thirdDay_eq sampleState_def samplePlayers_def)

lemma end_once:
  "fst (endMonsterCombat sampleCatalog wonState) =
     wonState\<lparr>game := (game thirdDay)\<lparr>monsterDefeated := True, monsterDeckIndex := 3,
                 pendingNotifications := [TierCompleted ''duende'']\<rparr>,
       players := map (\<lambda>p. p\<lparr>maxMana := maxMana p + 1, mana := min (mana p + 1) (maxMana p + 1)\<rparr>)
                    (players thirdDay)\<rparr>"
  by (simp add: wonState_eq endMonsterCombat_def Let_def sample_monsters thirdDay_fields
      check_sample_duende)

lemma end_twice:
  "fst (endMonsterCombat sampleCatalog (fst (endMonsterCombat sampleCatalog wonState))) =
     wonState\<lparr>game := (game thirdDay)\<lparr>monsterDefeated := True, monsterDeckIndex := 4,
                 pendingNotifications := [TierCompleted ''duende'', TierCompleted ''duende'']\<rparr>,
       players := map (\<lambda>p. p\<lparr>maxMana := maxMana p + 2, mana := min (mana p + 2) (maxMana p + 2)\<rparr>)
                    (players thirdDay)\<rparr>"
  by (simp add: end_once)
    (simp add: wonState_eq endMonsterCombat_def Let_def sample_monsters thirdDay_fields
      check_sample_duende o_def min_def)

text \<open>
  C6, in a session from the sample state. The third monster of the deck is its last
  duende; on day 3 the combat is opened on it and player 0 scores its 12 hit points. The
  first \<^verbatim>\<open>endMonsterCombat\<close> queues the notification of the completed tier and raises
  every maximum mana by one; the phase is still \<^verbatim>\<open>monsterCombat\<close> (only the dialog's
  button leaves it), and a second \<^verbatim>\<open>endMonsterCombat\<close> queues the notification of the
  same tier again, raises every maximum mana again and advances the cursor a second time.
\<close>

theorem endMonsterCombat_twice_rewards_twice:
  "monsterId (monsterCombat wonState) = Some 3 \<and>
   currentHP (monsterCombat wonState) = 0 \<and>
   currentDay (game wonState) = 3 \<and>
   monsterDeckIndex (game wonState) = 2 \<and>
   phase (fst (endMonsterCombat sampleCatalog wonState)) = MonsterCombat \<and>
   pendingNotifications (game (fst (endMonsterCombat sampleCatalog wonState))) =
     [TierCompleted ''duende''] \<and>
   map maxMana (players (fst (endMonsterCombat sampleCatalog wonState))) = [5, 6, 5] \<and>
   pendingNotifications
     (game (fst (endMonsterCombat sampleCatalog (fst (endMonsterCombat sampleCatalog wonState))))) =
     [TierCompleted ''duende'', TierCompleted ''duende''] \<and>
   map maxMana
     (players (fst (endMonsterCombat sampleCatalog (fst (endMonsterCombat sampleCatalog wonState))))) =
     [6, 7, 6] \<and>
   monsterDeckIndex
     (game (fst (endMonsterCombat sampleCatalog (fst (endMonsterCombat sampleCatalog wonState))))) = 4"
proof -
  have a: "monsterId (monsterCombat wonState) = Some 3 \<and>
      currentHP (monsterCombat wonState) = 0 \<and>
      currentDay (game wonState) = 3 \<and> monsterDeckIndex (game wonState) = 2"
    by (simp add: wonState_eq thirdDay_fields)
  have b: "phase (fst (endMonsterCombat sampleCatalog wonState)) = MonsterCombat \<and>
      pendingNotifications (game (fst (endMonsterCombat sampleCatalog wonState))) =
        [TierCompleted ''duende''] \<and>
      map maxMana (players (fst (endMonsterCombat sampleCatalog wonState))) = [5, 6, 5]"
    unfolding end_once
    by (simp add: wonState_eq thirdDay_eq sampleState_def samplePlayers_def)
  have c: "pendingNotifications
     (game (fst (endMonsterCombat sampleCatalog (fst (endMonsterCombat sampleCatalog wonState))))) =
     [TierCompleted ''duende'', TierCompleted ''duende''] \<and>
   map maxMana
     (players (fst (endMonsterCombat sampleCatalog (fst (endMonsterCombat sampleCatalog wonState))))) =
     [6, 7, 6] \<and>
   monsterDeckIndex
     (game (fst (endMonsterCombat sampleCatalog (fst (endMonsterCombat sampleCatalog wonState))))) = 4"
    unfolding end_twice
    by (simp add: wonState_eq thirdDay_eq sampleState_def samplePlayers_def)
  from a b c show ?thesis by blast
qed

lemma Math_max_Some: "xs \<noteq> [] \<Longrightarrow> Math_max xs = Some (Max (set xs))"
proof (induction xs)
  case Nil
  then show ?case by simp
next
  case (Cons x xs)
  show ?case
  proof (cases "xs = []")
    case True
    then show ?thesis by simp
  next
    case False
    with Cons.IH show ?thesis by (simp add: max_def Max_insert)
  qed
qed

lemma tierOf_case:
  "(case getMonster cat i of Some m \<Rightarrow> tier m = t | None \<Rightarrow> False) \<longleftrightarrow> tierOf cat i = Some t"
  by (simp add: tierOf_def split: option.split)

lemma checkTierCompletion_eq:
  "checkTierCompletion cat deck c t s =
     (if (\<exists>i<length deck. tierOf cat (deck ! i) = Some t) \<and>
         (\<forall>i<length deck. tierOf cat (deck ! i) = Some t \<longrightarrow> i < c)
      then s\<lparr>game := (game s)\<lparr>pendingNotifications :=
                                 pendingNotifications (game s) @ [TierCompleted t]\<rparr>,
             players := map (\<lambda>p. p\<lparr>maxMana := maxMana p + 1,
                                    mana := min (mana p + 1) (maxMana p + 1)\<rparr>)
                            (players s)\<rparr>
      else s)"
proof -
  define ti where "ti = filter (\<lambda>i. tierOf cat (deck ! i) = Some t) [0..<length deck]"
  have set_ti: "set ti = {i. i < length deck \<and> tierOf cat (deck ! i) = Some t}"
    by (auto simp: ti_def)
  have unfold: "checkTierCompletion cat deck c t s =
      (case Math_max ti of
         None \<Rightarrow> s
       | Some maxTierIdx \<Rightarrow>
           if c > maxTierIdx
           then s\<lparr>game := (game s)\<lparr>pendingNotifications :=
                                 pendingNotifications (game s) @ [TierCompleted t]\<rparr>,
                  players := map (\<lambda>p. p\<lparr>maxMana := maxMana p + 1,
                                    mana := min (mana p + 1) (maxMana p + 1)\<rparr>)
                            (players s)\<rparr>
           else s)"
    by (simp add: checkTierCompletion_def Let_def tierOf_case ti_def split: option.split)
  show ?thesis
  proof (cases "ti = []")
    case True
    then have "\<not> (\<exists>i<length deck. tierOf cat (deck ! i) = Some t)"
      using set_ti by auto
    with True show ?thesis by (auto simp: unfold)
  next
    case False
    then have ex: "\<exists>i<length deck. tierOf cat (deck ! i) = Some t"
      using set_ti by (metis (mono_tags, lifting) empty_Collect_eq set_empty)
    have fin: "finite (set ti)" "set ti \<noteq> {}" using False by simp_all
    have "Max (set ti) < c \<longleftrightarrow> (\<forall>i \<in> set ti. i < c)"
      using fin by (rule Max_less_iff)
    also have "\<dots> \<longleftrightarrow> (\<forall>i<length deck. tierOf cat (deck ! i) = Some t \<longrightarrow> i < c)"
      by (auto simp: set_ti)
    finally have mx: "Max (set ti) < c \<longleftrightarrow>
        (\<forall>i<length deck. tierOf cat (deck ! i) = Some t \<longrightarrow> i < c)" .
    show ?thesis
      using ex mx by (simp add: unfold Math_max_Some [OF False])
  qed
qed

text \<open>
  What a single victory does. The flag is set and the cursor advances by one in every
  state; when the combat was opened on the monster at the cursor, the reward is given
  exactly when no later position of the deck holds a monster of the same tier.
\<close>

lemma endMonsterCombat_victory_marks:
  assumes "currentHP (monsterCombat s) \<le> 0"
  shows "monsterDefeated (game (fst (endMonsterCombat cat s))) \<and>
         monsterDeckIndex (game (fst (endMonsterCombat cat s))) = monsterDeckIndex (game s) + 1 \<and>
         snd (endMonsterCombat cat s) = MonstruoDerrotado \<and>
         phase (fst (endMonsterCombat cat s)) = phase s"
  using assms
  by (simp add: endMonsterCombat_def Let_def checkTierCompletion_eq split: option.split)

lemma endMonsterCombat_victory_at_cursor:
  assumes hp: "currentHP (monsterCombat s) \<le> 0"
    and idx: "monsterDeckIndex (game s) < length (monsterDeck (game s))"
    and opened: "monsterId (monsterCombat s) = Some (monsterDeck (game s) ! monsterDeckIndex (game s))"
    and m: "getMonster cat (monsterDeck (game s) ! monsterDeckIndex (game s)) = Some m"
    and t: "tier m \<noteq> []"
  shows "(let s' = fst (endMonsterCombat cat s);
              lastOfTier =
                (\<forall>j<length (monsterDeck (game s)).
                   monsterDeckIndex (game s) < j \<longrightarrow>
                   tierOf cat (monsterDeck (game s) ! j) \<noteq> Some (tier m))
          in (lastOfTier \<longrightarrow>
                pendingNotifications (game s') =
                  pendingNotifications (game s) @ [TierCompleted (tier m)] \<and>
                players s' =
                  map (\<lambda>p. p\<lparr>maxMana := maxMana p + 1, mana := min (mana p + 1) (maxMana p + 1)\<rparr>)
                      (players s)) \<and>
             (\<not> lastOfTier \<longrightarrow>
                pendingNotifications (game s') = pendingNotifications (game s) \<and>
                players s' = players s))"
proof -
  let ?deck = "monsterDeck (game s)"
  let ?i = "monsterDeckIndex (game s)"
  have here: "tierOf cat (?deck ! ?i) = Some (tier m)"
    using m by (simp add: tierOf_def)
  have ex: "\<exists>i<length ?deck. tierOf cat (?deck ! i) = Some (tier m)"
    using idx here by blast
  have all: "(\<forall>i<length ?deck. tierOf cat (?deck ! i) = Some (tier m) \<longrightarrow> i < ?i + 1) \<longleftrightarrow>
      (\<forall>j<length ?deck. ?i < j \<longrightarrow> tierOf cat (?deck ! j) \<noteq> Some (tier m))"
    by (metis Suc_eq_plus1 less_Suc_eq_le not_less)
  show ?thesis
    using hp opened m t ex all
    by (simp add: endMonsterCombat_def Let_def checkTierCompletion_eq)
qed

end
